theory Spec2Isabelle
  imports Complex_Main "HOL-Library.List_Lexorder"
begin

section \<open>Overview\<close>

text \<open>
  This theory embeds the static methods of the class \<open>ExcelOperator\<close> of
  \<open>excel_operator.py\<close>: the operations that go through the spreadsheet library (the
  names of the sheets, their sorting, the CSV export, the change of font) and those that
  drive the spreadsheet application through its automation interface (search,
  replacement, grid size). A method becomes a function of the same name. An exception is
  a value of the type \<open>error\<close>, returned on the left of a sum. What a method does to
  the files, to the application and to the standard output is a change of the record
  \<open>world\<close>, which the function takes and returns. A loop of the source is a recursive
  function over the list it runs through, with the list of results as an accumulator.
\<close>

section \<open>Strings\<close>

text \<open>
  A Python \<open>str\<close> is a sequence of Unicode code points: \<open>chr\<close> builds a one-element
  string from a number, \<open>sorted\<close> compares strings code point by code point. The model
  therefore takes a string to be the list of its code points. \<open>ustr\<close> reads an ASCII
  literal into that type. The order on strings is the lexicographic one of
  \<open>HOL-Library.List_Lexorder\<close>, which is Python's \<open><\<close> on \<open>str\<close>.
\<close>

type_synonym pystr = "nat list"

definition ustr :: "string \<Rightarrow> pystr" where
  "ustr s = map of_char s"

text \<open>\<open>str.lower()\<close>. Only the ASCII letters are mapped; every other code point is kept.
  No code point outside ASCII lower-cases to one of the letters of \<open>asc\<close> or \<open>desc\<close>,
  so the test made by \<open>sort_sheet\<close> is decided as Python decides it.\<close>

definition lower_char :: "nat \<Rightarrow> nat" where
  "lower_char c = (if 65 \<le> c \<and> c \<le> 90 then c + 32 else c)"

definition lower :: "pystr \<Rightarrow> pystr" where
  "lower s = map lower_char s"

text \<open>\<open>sorted(xs, reverse=r)\<close>: a stable sort; with \<open>reverse\<close> the list is reversed, sorted
  and reversed again, which keeps equal elements in their original order.\<close>

definition py_sorted :: "pystr list \<Rightarrow> bool \<Rightarrow> pystr list" where
  "py_sorted xs reverse = (if reverse then rev (sort (rev xs)) else sort xs)"

section \<open>Workbooks\<close>

text \<open>
  The content of a cell as the automation interface and the spreadsheet library hand it
  over: nothing, a text, a truth value, or another scalar (a number, a date). Python's
  rendering of a floating-point number is not modelled: \<open>VScalar t\<close> stands for a scalar
  whose \<open>str()\<close> is the text \<open>t\<close>.
\<close>

datatype variant = VNone | VStr pystr | VBool bool | VScalar pystr

text \<open>
  A Python \<open>float\<close> is a binary64 number: a signed zero, a finite number
  \<open>m * 2^e\<close> with a sign, an infinity or a NaN. A finite number is kept in the form the format
  gives it: \<open>2^52 \<le> m < 2^53\<close> and \<open>- 1074 \<le> e \<le> 971\<close> for a normal number,
  \<open>m < 2^52\<close> and \<open>e = - 1074\<close> for a subnormal one. The truth value is the sign, true
  for a negative number.
\<close>

datatype pyfloat = Zero bool | Finite bool nat int | Infinite bool | NaN

record cell =
  cell_row :: nat
  cell_col :: nat
  cell_val :: variant
  cell_font :: pystr

record shape =
  shape_name :: pystr
  shape_text :: pystr

record sheet =
  sheet_name :: pystr
  used_rows :: "cell list list"
  shapes :: "shape list"
  row_height :: "pyfloat option"
  col_width :: "pyfloat option"

record workbook =
  sheets :: "sheet list"

datatype error =
    ValueError pystr
  | KeyError pystr
  | AttributeError
  | OpenError pystr
  | SaveError pystr
  | ComError pystr
  | OSError pystr
  | OverflowError
  | ReError
  | Unmodelled

text \<open>What the functions print, one constructor for each \<open>print\<close> of the source.\<close>

datatype message =
    OpeningFile pystr
  | FailedToOpen error
  | GridOpenFailed error
  | GridSizeSet pystr int
  | GridSaveFailed error

text \<open>
  The world outside the program: the workbook files by path, the paths that can be
  written, the CSV files written so far (as rows of values; the byte-level layout of the
  CSV text is not modelled), whether the spreadsheet application runs, the workbook it
  holds open (its path, and whether it was opened read-only), and the standard output.
\<close>

record world =
  files :: "pystr \<rightharpoonup> workbook"
  writable :: "pystr \<Rightarrow> bool"
  csv_files :: "pystr \<rightharpoonup> variant list list"
  excel_running :: bool
  excel_open :: "(pystr \<times> bool) option"
  stdout :: "message list"

section \<open>Operations through the spreadsheet library\<close>

definition sheetnames :: "workbook \<Rightarrow> pystr list" where
  "sheetnames wb = map sheet_name (sheets wb)"

text \<open>
  A spreadsheet application keeps the names of the sheets of a workbook distinct, also
  when upper and lower case are not told apart. The workbook files of the model are such
  files. (The library, on loading, renames a sheet whose name is that of an earlier sheet
  up to case; for the files of the model it hands the names over as they are stored.)
\<close>

definition names_unique :: "workbook \<Rightarrow> bool" where
  "names_unique wb = distinct (map lower (sheetnames wb))"

text \<open>The library does not read the shapes of a sheet: the workbook it loads, and the
  one it saves afterwards, has none.\<close>

definition loaded :: "workbook \<Rightarrow> workbook" where
  "loaded wb = wb\<lparr>sheets := map (\<lambda>ws. ws\<lparr>shapes := []\<rparr>) (sheets wb)\<rparr>"

text \<open>\<open>openpyxl.load_workbook(path)\<close> raises when the file cannot be opened.\<close>

definition load_workbook :: "world \<Rightarrow> pystr \<Rightarrow> error + workbook" where
  "load_workbook w path =
     (case files w path of None \<Rightarrow> Inl (OpenError path) | Some wb \<Rightarrow> Inr (loaded wb))"

text \<open>\<open>wb[name]\<close>: the first sheet of that name, \<open>KeyError\<close> when there is none.\<close>

definition get_sheet :: "workbook \<Rightarrow> pystr \<Rightarrow> error + sheet" where
  "get_sheet wb name =
     (case find (\<lambda>s. sheet_name s = name) (sheets wb) of
        None \<Rightarrow> Inl (KeyError (ustr ''Worksheet '' @ name @ ustr '' does not exist.''))
      | Some ws \<Rightarrow> Inr ws)"

text \<open>The sheet object is shared with the workbook: a change to it is a change to
  the workbook's first sheet of that name.\<close>

fun put_sheet :: "sheet list \<Rightarrow> pystr \<Rightarrow> sheet \<Rightarrow> sheet list" where
  "put_sheet [] name ws = []"
| "put_sheet (s # ss) name ws =
     (if sheet_name s = name then ws # ss else s # put_sheet ss name ws)"

text \<open>\<open>wb.save(path)\<close>.\<close>

definition save_workbook :: "world \<Rightarrow> pystr \<Rightarrow> workbook \<Rightarrow> error + world" where
  "save_workbook w path wb =
     (if writable w path then Inr (w\<lparr>files := (files w)(path \<mapsto> wb)\<rparr>)
      else Inl (SaveError path))"


definition order_error :: error where
  "order_error = ValueError (ustr ''Invalid value for 'order'. Must be 'asc' or 'desc'.'')"

definition sort_sheet :: "world \<Rightarrow> pystr \<Rightarrow> pystr \<Rightarrow> error + pystr list" where
  "sort_sheet w excel_file_path order0 =
     (let order = lower order0 in
      if order \<notin> set [ustr ''asc'', ustr ''desc''] then Inl order_error
      else
        (case load_workbook w excel_file_path of
           Inl e \<Rightarrow> Inl e
         | Inr wb \<Rightarrow> Inr (py_sorted (sheetnames wb) (order = ustr ''desc''))))"

definition no_sheet_error :: "pystr \<Rightarrow> error" where
  "no_sheet_error name =
     ValueError (ustr ''Sheet '' @ [39] @ name @ [39] @
                 ustr '' does not exist in the Excel file.'')"

text \<open>\<open>open(csv_file_path, mode='w', \<dots>)\<close> raises when the file cannot be opened for
  writing; this is after the test of the sheet name.\<close>

definition convert_csv :: "world \<Rightarrow> pystr \<Rightarrow> pystr \<Rightarrow> pystr \<Rightarrow> (error + unit) \<times> world" where
  "convert_csv w excel_file_path name csv_file_path =
     (case load_workbook w excel_file_path of
        Inl e \<Rightarrow> (Inl e, w)
      | Inr wb \<Rightarrow>
          if name \<notin> set (sheetnames wb) then (Inl (no_sheet_error name), w)
          else
            (case get_sheet wb name of
               Inl e \<Rightarrow> (Inl e, w)
             | Inr ws \<Rightarrow>
                 if writable w csv_file_path then
                   (Inr (),
                    w\<lparr>csv_files := (csv_files w)(csv_file_path \<mapsto>
                         map (map cell_val) (used_rows ws))\<rparr>)
                 else (Inl (OSError csv_file_path), w)))"

definition set_font :: "pystr \<Rightarrow> sheet \<Rightarrow> sheet" where
  "set_font font_name ws =
     ws\<lparr>used_rows := map (map (\<lambda>c. c\<lparr>cell_font := font_name\<rparr>)) (used_rows ws)\<rparr>"

definition change_font :: "world \<Rightarrow> pystr \<Rightarrow> pystr \<Rightarrow> pystr \<Rightarrow> (error + unit) \<times> world" where
  "change_font w excel_file_path name font_name =
     (case load_workbook w excel_file_path of
        Inl e \<Rightarrow> (Inl e, w)
      | Inr wb \<Rightarrow>
          (case get_sheet wb name of
             Inl e \<Rightarrow> (Inl e, w)
           | Inr ws \<Rightarrow>
               (case save_workbook w excel_file_path
                       (wb\<lparr>sheets := put_sheet (sheets wb) name (set_font font_name ws)\<rparr>) of
                  Inl e \<Rightarrow> (Inl e, w)
                | Inr w' \<Rightarrow> (Inr (), w'))))"

section \<open>Built-in string operations\<close>

text \<open>\<open>str(v)\<close> for a cell content.\<close>

fun py_str :: "variant \<Rightarrow> pystr" where
  "py_str VNone = ustr ''None''"
| "py_str (VStr s) = s"
| "py_str (VBool b) = (if b then ustr ''True'' else ustr ''False'')"
| "py_str (VScalar t) = t"

text \<open>\<open>str(n)\<close> for a row number: its decimal digits.\<close>

fun py_str_nat :: "nat \<Rightarrow> pystr" where
  "py_str_nat n = (if n < 10 then [48 + n] else py_str_nat (n div 10) @ [48 + n mod 10])"

declare py_str_nat.simps [simp del]

text \<open>\<open>chr(n)\<close>: the one-character string of code point \<open>n\<close>; \<open>ValueError\<close> beyond the
  last code point.\<close>

definition py_chr :: "nat \<Rightarrow> error + pystr" where
  "py_chr n =
     (if n < 1114112 then Inr [n]
      else Inl (ValueError (ustr ''chr() arg not in range(0x110000)'')))"

text \<open>\<open>s in t\<close>: \<open>s\<close> occurs in \<open>t\<close> at some position.\<close>

fun py_in :: "pystr \<Rightarrow> pystr \<Rightarrow> bool" where
  "py_in s [] = (s = [])"
| "py_in s (c # cs) = (take (length s) (c # cs) = s \<or> py_in s cs)"

text \<open>\<open>t.replace(old, new)\<close>: every occurrence of \<open>old\<close>, from the left, without
  overlap; an empty \<open>old\<close> is found before every character and at the end.\<close>

function py_replace :: "pystr \<Rightarrow> pystr \<Rightarrow> pystr \<Rightarrow> pystr" where
  "py_replace [] old new = (if old = [] then new else [])"
| "py_replace (c # cs) old new =
     (if old = [] then new @ c # py_replace cs old new
      else if take (length old) (c # cs) = old
        then new @ py_replace (drop (length old) (c # cs)) old new
      else c # py_replace cs old new)"
  by pat_completeness auto
termination
  by (relation "measure (\<lambda>(t, old, new). length t)") auto

section \<open>Floating-point arithmetic\<close>












section \<open>The regular-expression library\<close>

text \<open>
  The \<open>re\<close> module of the standard library is not part of the repository. The functions
  below take it as a parameter: how a pattern text is compiled (or rejected), whether a
  compiled pattern is found somewhere in a text (\<open>pattern.search(t)\<close> is not \<open>None\<close>), and
  the substitution \<open>pattern.sub(repl, t)\<close>, which can raise on a malformed replacement.
\<close>

record 'p re_module =
  re_compile :: "pystr \<Rightarrow> error + 'p"
  re_search :: "'p \<Rightarrow> pystr \<Rightarrow> bool"
  re_sub :: "'p \<Rightarrow> pystr \<Rightarrow> pystr \<Rightarrow> error + pystr"

text \<open>\<open>re.escape\<close> puts a backslash before each of the characters
  \<^verbatim>\<open>()[]{}?*+-|^$\.&~#\<close>, the space and the control characters tab, newline, return,
  vertical tab and form feed.\<close>

definition re_special :: "nat list" where
  "re_special = ustr ''()[]{}?*+-|^$'' @ [92] @ ustr ''.&~# '' @ [9, 10, 13, 11, 12]"

definition re_escape :: "pystr \<Rightarrow> pystr" where
  "re_escape s = concat (map (\<lambda>c. if c \<in> set re_special then [92, c] else [c]) s)"

text \<open>The pattern both \<open>search_string_in_book\<close> and \<open>replace_string_in_book\<close> build
  before their loops; \<open>None\<close> when regular expressions are off.\<close>

definition make_pattern ::
  "'p re_module \<Rightarrow> pystr \<Rightarrow> bool \<Rightarrow> bool \<Rightarrow> error + 'p option" where
  "make_pattern re search_string exact_match use_regex =
     (if use_regex then
        (if exact_match then
           (case re_compile re (ustr ''^'' @ re_escape search_string @ ustr ''$'') of
              Inl e \<Rightarrow> Inl e
            | Inr p \<Rightarrow> Inr (Some p))
         else
           (case re_compile re search_string of
              Inl e \<Rightarrow> Inl e
            | Inr p \<Rightarrow> Inr (Some p)))
      else Inr None)"

section \<open>The automation interface\<close>

definition print :: "message \<Rightarrow> world \<Rightarrow> world" where
  "print m w = w\<lparr>stdout := stdout w @ [m]\<rparr>"

text \<open>\<open>win32com.client.Dispatch("Excel.Application")\<close>.\<close>

definition dispatch :: "world \<Rightarrow> world" where
  "dispatch w = w\<lparr>excel_running := True\<rparr>"

text \<open>\<open>excel.Workbooks.Open(path, ReadOnly=ro)\<close>.\<close>

definition workbooks_open :: "world \<Rightarrow> pystr \<Rightarrow> bool \<Rightarrow> (error + workbook) \<times> world" where
  "workbooks_open w path ro =
     (case files w path of
        None \<Rightarrow> (Inl (ComError path), w)
      | Some wb \<Rightarrow> (Inr wb, w\<lparr>excel_open := Some (path, ro)\<rparr>))"

text \<open>\<open>wb.Save()\<close> writes the workbook as the application holds it, \<open>wb\<close>, to its file.\<close>

definition wb_save :: "world \<Rightarrow> workbook \<Rightarrow> error + world" where
  "wb_save w wb =
     (case excel_open w of
        None \<Rightarrow> Inl (ComError [])
      | Some (path, ro) \<Rightarrow>
          if ro \<or> \<not> writable w path then Inl (SaveError path)
          else Inr (w\<lparr>files := (files w)(path \<mapsto> wb)\<rparr>))"

text \<open>\<open>wb.Close(save_changes)\<close>.\<close>

definition wb_close :: "world \<Rightarrow> workbook \<Rightarrow> bool \<Rightarrow> error + world" where
  "wb_close w wb save_changes =
     (if save_changes then
        (case wb_save w wb of
           Inl e \<Rightarrow> Inl e
         | Inr w' \<Rightarrow> Inr (w'\<lparr>excel_open := None\<rparr>))
      else Inr (w\<lparr>excel_open := None\<rparr>))"

text \<open>\<open>excel.Quit()\<close>.\<close>

definition excel_quit :: "world \<Rightarrow> world" where
  "excel_quit w = w\<lparr>excel_running := False\<rparr>"



text \<open>\<open>str(cell.Value) if cell.Value is not None else ""\<close>.\<close>

definition cell_text :: "cell \<Rightarrow> pystr" where
  "cell_text c = (if cell_val c \<noteq> VNone then py_str (cell_val c) else [])"

text \<open>The label of a shape, \<open>f"\<dots>: {shape_name}"\<close>: the two characters U+56F3 and U+5F62,
  a colon and a space before the name.\<close>

definition shape_label :: "pystr \<Rightarrow> pystr" where
  "shape_label name = [22259, 24418, 58, 32] @ name"

section \<open>Search\<close>

type_synonym search_hit = "pystr \<times> pystr \<times> pystr"

text \<open>\<open>col_letter = chr(cell.Column + 64)\<close> and
  \<open>results.append((sheet_name, f"{col_letter}{cell.Row}", cell_value))\<close>.\<close>

definition append_cell_hit ::
  "pystr \<Rightarrow> cell \<Rightarrow> pystr \<Rightarrow> search_hit list \<Rightarrow> error + search_hit list" where
  "append_cell_hit name c cell_value results =
     (case py_chr (cell_col c + 64) of
        Inl e \<Rightarrow> Inl e
      | Inr col_letter \<Rightarrow>
          Inr (results @ [(name, col_letter @ py_str_nat (cell_row c), cell_value)]))"

text \<open>The body of the loop over the cells of a row. With regular expressions on, the
  pattern is the compiled one; were it \<open>None\<close>, \<open>pattern.search\<close> would raise.\<close>

definition search_cell ::
  "'p re_module \<Rightarrow> 'p option \<Rightarrow> pystr \<Rightarrow> bool \<Rightarrow> bool \<Rightarrow> pystr \<Rightarrow> cell \<Rightarrow>
   search_hit list \<Rightarrow> error + search_hit list" where
  "search_cell re pattern search_string exact_match use_regex name c results =
     (let cell_value = cell_text c in
      if use_regex then
        (case pattern of
           None \<Rightarrow> Inl AttributeError
         | Some p \<Rightarrow>
             if re_search re p cell_value
             then append_cell_hit name c cell_value results
             else Inr results)
      else if exact_match then
        (if cell_value = search_string
         then append_cell_hit name c cell_value results
         else Inr results)
      else
        (if py_in search_string cell_value
         then append_cell_hit name c cell_value results
         else Inr results))"

fun search_cells ::
  "'p re_module \<Rightarrow> 'p option \<Rightarrow> pystr \<Rightarrow> bool \<Rightarrow> bool \<Rightarrow> pystr \<Rightarrow> cell list \<Rightarrow>
   search_hit list \<Rightarrow> error + search_hit list" where
  "search_cells re pattern s exact_match use_regex name [] results = Inr results"
| "search_cells re pattern s exact_match use_regex name (c # cs) results =
     (case search_cell re pattern s exact_match use_regex name c results of
        Inl e \<Rightarrow> Inl e
      | Inr results' \<Rightarrow> search_cells re pattern s exact_match use_regex name cs results')"

fun search_rows ::
  "'p re_module \<Rightarrow> 'p option \<Rightarrow> pystr \<Rightarrow> bool \<Rightarrow> bool \<Rightarrow> pystr \<Rightarrow> cell list list \<Rightarrow>
   search_hit list \<Rightarrow> error + search_hit list" where
  "search_rows re pattern s exact_match use_regex name [] results = Inr results"
| "search_rows re pattern s exact_match use_regex name (row # rows) results =
     (case search_cells re pattern s exact_match use_regex name row results of
        Inl e \<Rightarrow> Inl e
      | Inr results' \<Rightarrow> search_rows re pattern s exact_match use_regex name rows results')"

text \<open>The body of the loop over the shapes of a sheet.\<close>

definition search_shape ::
  "'p re_module \<Rightarrow> 'p option \<Rightarrow> pystr \<Rightarrow> bool \<Rightarrow> bool \<Rightarrow> pystr \<Rightarrow> shape \<Rightarrow>
   search_hit list \<Rightarrow> error + search_hit list" where
  "search_shape re pattern search_string exact_match use_regex name sh results =
     (let text = shape_text sh; label = shape_label (shape_name sh) in
      if use_regex then
        (case pattern of
           None \<Rightarrow> Inl AttributeError
         | Some p \<Rightarrow>
             if re_search re p text
             then Inr (results @ [(name, label, text)])
             else Inr results)
      else if exact_match then
        (if text = search_string
         then Inr (results @ [(name, label, text)])
         else Inr results)
      else
        (if py_in search_string text
         then Inr (results @ [(name, label, text)])
         else Inr results))"

fun search_shapes ::
  "'p re_module \<Rightarrow> 'p option \<Rightarrow> pystr \<Rightarrow> bool \<Rightarrow> bool \<Rightarrow> pystr \<Rightarrow> shape list \<Rightarrow>
   search_hit list \<Rightarrow> error + search_hit list" where
  "search_shapes re pattern s exact_match use_regex name [] results = Inr results"
| "search_shapes re pattern s exact_match use_regex name (sh # shs) results =
     (case search_shape re pattern s exact_match use_regex name sh results of
        Inl e \<Rightarrow> Inl e
      | Inr results' \<Rightarrow> search_shapes re pattern s exact_match use_regex name shs results')"

text \<open>The loop over the sheets: the used range first, then the shapes.\<close>

fun search_sheets ::
  "'p re_module \<Rightarrow> 'p option \<Rightarrow> pystr \<Rightarrow> bool \<Rightarrow> bool \<Rightarrow> sheet list \<Rightarrow>
   search_hit list \<Rightarrow> error + search_hit list" where
  "search_sheets re pattern s exact_match use_regex [] results = Inr results"
| "search_sheets re pattern s exact_match use_regex (ws # wss) results =
     (case search_rows re pattern s exact_match use_regex (sheet_name ws) (used_rows ws)
             results of
        Inl e \<Rightarrow> Inl e
      | Inr results1 \<Rightarrow>
          (case search_shapes re pattern s exact_match use_regex (sheet_name ws) (shapes ws)
                  results1 of
             Inl e \<Rightarrow> Inl e
           | Inr results2 \<Rightarrow> search_sheets re pattern s exact_match use_regex wss results2))"

text \<open>An exception leaves the function where it is raised: the workbook is then neither
  closed nor the application quit.\<close>

definition search_string_in_book ::
  "'p re_module \<Rightarrow> world \<Rightarrow> pystr \<Rightarrow> pystr \<Rightarrow> bool \<Rightarrow> bool \<Rightarrow>
   (error + search_hit list) \<times> world" where
  "search_string_in_book re w excel_file_path search_string exact_match use_regex =
     (case workbooks_open (dispatch w) excel_file_path True of
        (Inl e, w1) \<Rightarrow> (Inl e, w1)
      | (Inr wb, w1) \<Rightarrow>
          (case make_pattern re search_string exact_match use_regex of
             Inl e \<Rightarrow> (Inl e, w1)
           | Inr pattern \<Rightarrow>
               (case search_sheets re pattern search_string exact_match use_regex
                       (sheets wb) [] of
                  Inl e \<Rightarrow> (Inl e, w1)
                | Inr results \<Rightarrow>
                    (case wb_close w1 wb False of
                       Inl e \<Rightarrow> (Inl e, w1)
                     | Inr w2 \<Rightarrow> (Inr results, excel_quit w2)))))"

section \<open>Replace\<close>

type_synonym replace_hit = "pystr \<times> pystr \<times> pystr \<times> pystr"

text \<open>The new text of a cell or a shape. The source computes it by the same statements
  in its loop over the cells and in its loop over the shapes.\<close>

definition new_text ::
  "'p re_module \<Rightarrow> 'p option \<Rightarrow> pystr \<Rightarrow> pystr \<Rightarrow> bool \<Rightarrow> bool \<Rightarrow> pystr \<Rightarrow>
   error + pystr" where
  "new_text re pattern search_string replace_string exact_match use_regex text =
     (if use_regex then
        (case pattern of
           None \<Rightarrow> Inl AttributeError
         | Some p \<Rightarrow>
             if re_search re p text then re_sub re p replace_string text else Inr text)
      else if exact_match then
        (if text = search_string then Inr replace_string else Inr text)
      else
        (if py_in search_string text
         then Inr (py_replace text search_string replace_string)
         else Inr text))"

text \<open>The body of the loop over the cells of a row: the cell as it is afterwards, and the
  results.\<close>

definition replace_cell ::
  "'p re_module \<Rightarrow> 'p option \<Rightarrow> pystr \<Rightarrow> pystr \<Rightarrow> bool \<Rightarrow> bool \<Rightarrow> pystr \<Rightarrow> cell \<Rightarrow>
   replace_hit list \<Rightarrow> error + cell \<times> replace_hit list" where
  "replace_cell re pattern s r exact_match use_regex name c results =
     (let cell_value = cell_text c in
      case new_text re pattern s r exact_match use_regex cell_value of
        Inl e \<Rightarrow> Inl e
      | Inr new_value \<Rightarrow>
          if new_value \<noteq> cell_value then
            (case py_chr (cell_col c + 64) of
               Inl e \<Rightarrow> Inl e
             | Inr col_letter \<Rightarrow>
                 Inr (c\<lparr>cell_val := VStr new_value\<rparr>,
                      results @ [(name, col_letter @ py_str_nat (cell_row c),
                                  cell_value, new_value)]))
          else Inr (c, results))"

fun replace_cells ::
  "'p re_module \<Rightarrow> 'p option \<Rightarrow> pystr \<Rightarrow> pystr \<Rightarrow> bool \<Rightarrow> bool \<Rightarrow> pystr \<Rightarrow> cell list \<Rightarrow>
   replace_hit list \<Rightarrow> error + cell list \<times> replace_hit list" where
  "replace_cells re pattern s r exact_match use_regex name [] results = Inr ([], results)"
| "replace_cells re pattern s r exact_match use_regex name (c # cs) results =
     (case replace_cell re pattern s r exact_match use_regex name c results of
        Inl e \<Rightarrow> Inl e
      | Inr (c', results1) \<Rightarrow>
          (case replace_cells re pattern s r exact_match use_regex name cs results1 of
             Inl e \<Rightarrow> Inl e
           | Inr (cs', results2) \<Rightarrow> Inr (c' # cs', results2)))"

fun replace_rows ::
  "'p re_module \<Rightarrow> 'p option \<Rightarrow> pystr \<Rightarrow> pystr \<Rightarrow> bool \<Rightarrow> bool \<Rightarrow> pystr \<Rightarrow>
   cell list list \<Rightarrow> replace_hit list \<Rightarrow> error + cell list list \<times> replace_hit list" where
  "replace_rows re pattern s r exact_match use_regex name [] results = Inr ([], results)"
| "replace_rows re pattern s r exact_match use_regex name (row # rows) results =
     (case replace_cells re pattern s r exact_match use_regex name row results of
        Inl e \<Rightarrow> Inl e
      | Inr (row', results1) \<Rightarrow>
          (case replace_rows re pattern s r exact_match use_regex name rows results1 of
             Inl e \<Rightarrow> Inl e
           | Inr (rows', results2) \<Rightarrow> Inr (row' # rows', results2)))"

text \<open>The body of the loop over the shapes of a sheet.\<close>

definition replace_shape ::
  "'p re_module \<Rightarrow> 'p option \<Rightarrow> pystr \<Rightarrow> pystr \<Rightarrow> bool \<Rightarrow> bool \<Rightarrow> pystr \<Rightarrow> shape \<Rightarrow>
   replace_hit list \<Rightarrow> error + shape \<times> replace_hit list" where
  "replace_shape re pattern s r exact_match use_regex name sh results =
     (let text = shape_text sh in
      case new_text re pattern s r exact_match use_regex text of
        Inl e \<Rightarrow> Inl e
      | Inr new_shape_text \<Rightarrow>
          if new_shape_text \<noteq> text then
            Inr (sh\<lparr>shape_text := new_shape_text\<rparr>,
                 results @ [(name, shape_label (shape_name sh), text, new_shape_text)])
          else Inr (sh, results))"

fun replace_shapes ::
  "'p re_module \<Rightarrow> 'p option \<Rightarrow> pystr \<Rightarrow> pystr \<Rightarrow> bool \<Rightarrow> bool \<Rightarrow> pystr \<Rightarrow> shape list \<Rightarrow>
   replace_hit list \<Rightarrow> error + shape list \<times> replace_hit list" where
  "replace_shapes re pattern s r exact_match use_regex name [] results = Inr ([], results)"
| "replace_shapes re pattern s r exact_match use_regex name (sh # shs) results =
     (case replace_shape re pattern s r exact_match use_regex name sh results of
        Inl e \<Rightarrow> Inl e
      | Inr (sh', results1) \<Rightarrow>
          (case replace_shapes re pattern s r exact_match use_regex name shs results1 of
             Inl e \<Rightarrow> Inl e
           | Inr (shs', results2) \<Rightarrow> Inr (sh' # shs', results2)))"

fun replace_sheets ::
  "'p re_module \<Rightarrow> 'p option \<Rightarrow> pystr \<Rightarrow> pystr \<Rightarrow> bool \<Rightarrow> bool \<Rightarrow> sheet list \<Rightarrow>
   replace_hit list \<Rightarrow> error + sheet list \<times> replace_hit list" where
  "replace_sheets re pattern s r exact_match use_regex [] results = Inr ([], results)"
| "replace_sheets re pattern s r exact_match use_regex (ws # wss) results =
     (case replace_rows re pattern s r exact_match use_regex (sheet_name ws) (used_rows ws)
             results of
        Inl e \<Rightarrow> Inl e
      | Inr (rows', results1) \<Rightarrow>
          (case replace_shapes re pattern s r exact_match use_regex (sheet_name ws)
                  (shapes ws) results1 of
             Inl e \<Rightarrow> Inl e
           | Inr (shapes', results2) \<Rightarrow>
               (case replace_sheets re pattern s r exact_match use_regex wss results2 of
                  Inl e \<Rightarrow> Inl e
                | Inr (wss', results3) \<Rightarrow>
                    Inr (ws\<lparr>used_rows := rows', shapes := shapes'\<rparr> # wss', results3))))"

text \<open>A failure to open the workbook is caught, printed, and answered by the empty
  list. Any later exception leaves the function where it is raised, before the save.\<close>

definition replace_string_in_book ::
  "'p re_module \<Rightarrow> world \<Rightarrow> pystr \<Rightarrow> pystr \<Rightarrow> pystr \<Rightarrow> bool \<Rightarrow> bool \<Rightarrow>
   (error + replace_hit list) \<times> world" where
  "replace_string_in_book re w excel_file_path search_string replace_string exact_match
     use_regex =
     (case workbooks_open (dispatch (print (OpeningFile excel_file_path) w))
             excel_file_path False of
        (Inl e, w1) \<Rightarrow> (Inr [], print (FailedToOpen e) w1)
      | (Inr wb, w1) \<Rightarrow>
          (case make_pattern re search_string exact_match use_regex of
             Inl e \<Rightarrow> (Inl e, w1)
           | Inr pattern \<Rightarrow>
               (case replace_sheets re pattern search_string replace_string exact_match
                       use_regex (sheets wb) [] of
                  Inl e \<Rightarrow> (Inl e, w1)
                | Inr (sheets', results) \<Rightarrow>
                    (case wb_save w1 (wb\<lparr>sheets := sheets'\<rparr>) of
                       Inl e \<Rightarrow> (Inl e, w1)
                     | Inr w2 \<Rightarrow>
                         (case wb_close w2 (wb\<lparr>sheets := sheets'\<rparr>) False of
                            Inl e \<Rightarrow> (Inl e, w2)
                          | Inr w3 \<Rightarrow> (Inr results, excel_quit w3))))))"

section \<open>Grid size\<close>



section \<open>A fragment of the regular-expression library\<close>

text \<open>
  To run the functions on concrete inputs, the library is given for a fragment of its
  pattern language: a pattern is a sequence of literal characters, \<open>.\<close> (any character
  but the newline), a backslash before a character that is no ASCII letter or digit (that
  character, literally), \<open>^\<close> (the start of the text) and \<open>$\<close> (the end of the text, or
  the place before a newline that ends the text). A backslash at the end of the pattern
  is an error of the library. A pattern with a repetition, a set, a group, an
  alternative or a backslash before a letter or a digit is outside the fragment, and so is
  a replacement text with a backslash: the answer is then \<open>Unmodelled\<close>.
\<close>

datatype re_atom = Lit nat | AnyChar

datatype re_item = Bol | Eol | One re_atom

definition ascii_alnum :: "nat \<Rightarrow> bool" where
  "ascii_alnum c = ((48 \<le> c \<and> c \<le> 57) \<or> (65 \<le> c \<and> c \<le> 90) \<or> (97 \<le> c \<and> c \<le> 122))"

definition re_plain :: "nat \<Rightarrow> error + re_item" where
  "re_plain c =
     (if c = 94 then Inr Bol
      else if c = 36 then Inr Eol
      else if c = 46 then Inr (One AnyChar)
      else if c \<in> set (ustr ''*+?{}[]()|'') then Inl Unmodelled
      else Inr (One (Lit c)))"

definition re_cons :: "error + re_item \<Rightarrow> error + re_item list \<Rightarrow> error + re_item list" where
  "re_cons i r =
     (case i of
        Inl e \<Rightarrow> Inl e
      | Inr x \<Rightarrow> (case r of Inl e \<Rightarrow> Inl e | Inr xs \<Rightarrow> Inr (x # xs)))"

fun re_parse :: "pystr \<Rightarrow> error + re_item list" where
  "re_parse [] = Inr []"
| "re_parse [c] = (if c = 92 then Inl ReError else re_cons (re_plain c) (Inr []))"
| "re_parse (c # d # ds) =
     (if c = 92 then
        (if ascii_alnum d then Inl Unmodelled else re_cons (Inr (One (Lit d))) (re_parse ds))
      else re_cons (re_plain c) (re_parse (d # ds)))"

fun atom_ok :: "re_atom \<Rightarrow> nat \<Rightarrow> bool" where
  "atom_ok (Lit a) c = (c = a)"
| "atom_ok AnyChar c = (c \<noteq> 10)"

text \<open>Does the pattern match at the front of the text? \<open>at_start\<close> says whether that
  front is the start of the whole text.\<close>

fun match_here :: "re_item list \<Rightarrow> bool \<Rightarrow> pystr \<Rightarrow> bool" where
  "match_here [] at_start t = True"
| "match_here (Bol # r) at_start t = (at_start \<and> match_here r at_start t)"
| "match_here (Eol # r) at_start t = ((t = [] \<or> t = [10]) \<and> match_here r at_start t)"
| "match_here (One a # r) at_start [] = False"
| "match_here (One a # r) at_start (c # cs) = (atom_ok a c \<and> match_here r False cs)"

fun search_from :: "re_item list \<Rightarrow> bool \<Rightarrow> pystr \<Rightarrow> bool" where
  "search_from p at_start [] = match_here p at_start []"
| "search_from p at_start (c # cs) = (match_here p at_start (c # cs) \<or> search_from p False cs)"

text \<open>Every match of a pattern of the fragment has the same length.\<close>

fun re_width :: "re_item list \<Rightarrow> nat" where
  "re_width [] = 0"
| "re_width (One a # r) = Suc (re_width r)"
| "re_width (i # r) = re_width r"

text \<open>Substitution from the left: a match is replaced and the scan goes on behind it; an
  empty match is replaced and the next character kept.\<close>

fun sub_from :: "re_item list \<Rightarrow> pystr \<Rightarrow> bool \<Rightarrow> pystr \<Rightarrow> pystr" where
  "sub_from p repl at_start [] = (if match_here p at_start [] then repl else [])"
| "sub_from p repl at_start (c # cs) =
     (if match_here p at_start (c # cs) then
        (if re_width p = 0 then repl @ c # sub_from p repl False cs
         else repl @ sub_from p repl False (drop (re_width p - 1) cs))
      else c # sub_from p repl False cs)"

definition re_fragment :: "re_item list re_module" where
  "re_fragment =
     \<lparr>re_compile = re_parse,
      re_search = (\<lambda>p t. search_from p True t),
      re_sub = (\<lambda>p repl t. if 92 \<in> set repl then Inl Unmodelled
                            else Inr (sub_from p repl True t))\<rparr>"

section \<open>Small workbooks\<close>

definition text_cell :: "nat \<Rightarrow> nat \<Rightarrow> pystr \<Rightarrow> cell" where
  "text_cell r c s = \<lparr>cell_row = r, cell_col = c, cell_val = VStr s, cell_font = ustr ''Calibri''\<rparr>"

definition blank_cell :: "nat \<Rightarrow> nat \<Rightarrow> cell" where
  "blank_cell r c = \<lparr>cell_row = r, cell_col = c, cell_val = VNone, cell_font = ustr ''Calibri''\<rparr>"

definition sheet_of :: "pystr \<Rightarrow> cell list list \<Rightarrow> shape list \<Rightarrow> sheet" where
  "sheet_of name rows shps =
     \<lparr>sheet_name = name, used_rows = rows, shapes = shps, row_height = None, col_width = None\<rparr>"

text \<open>A world with one workbook file, which can be written, and nothing else.\<close>

definition one_file_world :: "pystr \<Rightarrow> workbook \<Rightarrow> world" where
  "one_file_world path wb =
     \<lparr>files = [path \<mapsto> wb], writable = (\<lambda>p. True), csv_files = Map.empty,
      excel_running = False, excel_open = None, stdout = []\<rparr>"

definition demo_path :: pystr where
  "demo_path = ustr ''book.xlsx''"

text \<open>Three sheets without content, named \<open>b\<close>, \<open>C\<close> and \<open>a\<close>, in that order.\<close>

definition three_sheets :: workbook where
  "three_sheets =
     \<lparr>sheets = [sheet_of (ustr ''b'') [] [], sheet_of (ustr ''C'') [] [],
                sheet_of (ustr ''a'') [] []]\<rparr>"

text \<open>One sheet, \<open>Data\<close>, with the text \<open>x\<close> in its cell A1.\<close>

definition data_book :: workbook where
  "data_book = \<lparr>sheets = [sheet_of (ustr ''Data'') [[text_cell 1 1 (ustr ''x'')]] []]\<rparr>"

text \<open>The same workbook with the row height \<open>15 * 2^49 * 2^-49\<close> and the column width
  \<open>6305039478318695 * 2^-51\<close>.\<close>

definition data_book_sized :: workbook where
  "data_book_sized =
     \<lparr>sheets = [\<lparr>sheet_name = ustr ''Data'', used_rows = [[text_cell 1 1 (ustr ''x'')]],
                 shapes = [],
                 row_height = Some (Finite False 8444249301319680 (- 49)),
                 col_width = Some (Finite False 6305039478318695 (- 51))\<rparr>]\<rparr>"

text \<open>One sheet, \<open>Sheet1\<close>, with the text \<open>v\<close> in its cell A1.\<close>

definition one_cell_book :: "pystr \<Rightarrow> workbook" where
  "one_cell_book v = \<lparr>sheets = [sheet_of (ustr ''Sheet1'') [[text_cell 1 1 v]] []]\<rparr>"

text \<open>\<open>foobar\<close> in A1, \<open>qux\<close> in B1 and a shape with the text \<open>food\<close>; and the same
  workbook after \<open>foo\<close> has been replaced by \<open>bar\<close>.\<close>

definition foo_book :: workbook where
  "foo_book =
     \<lparr>sheets = [sheet_of (ustr ''Sheet1'')
                  [[text_cell 1 1 (ustr ''foobar''), text_cell 1 2 (ustr ''qux'')]]
                  [\<lparr>shape_name = ustr ''Box'', shape_text = ustr ''food''\<rparr>]]\<rparr>"

definition foo_book_replaced :: workbook where
  "foo_book_replaced =
     \<lparr>sheets = [sheet_of (ustr ''Sheet1'')
                  [[text_cell 1 1 (ustr ''barbar''), text_cell 1 2 (ustr ''qux'')]]
                  [\<lparr>shape_name = ustr ''Box'', shape_text = ustr ''bard''\<rparr>]]\<rparr>"

text \<open>Two sheets: a text, a cell without value and a shape on the first, a text in C2
  on the second.\<close>

definition mixed_book :: workbook where
  "mixed_book =
     \<lparr>sheets = [sheet_of (ustr ''Sheet1'')
                  [[text_cell 1 1 (ustr ''abc''), blank_cell 1 2]]
                  [\<lparr>shape_name = ustr ''Box'', shape_text = ustr ''note''\<rparr>],
                sheet_of (ustr ''Sheet2'') [[text_cell 2 3 (ustr ''a.c'')]] []]\<rparr>"

text \<open>The text \<open>foo\<close> in row 3 of the columns 26 and 27.\<close>

definition wide_book :: workbook where
  "wide_book =
     \<lparr>sheets = [sheet_of (ustr ''Sheet1'')
                  [[text_cell 3 26 (ustr ''foo''), text_cell 3 27 (ustr ''foo'')]] []]\<rparr>"

text \<open>\<open>abc\<close> in A1, \<open>a.c\<close> in B1 and a shape with the text \<open>abc\<close>.\<close>

definition dot_book :: workbook where
  "dot_book =
     \<lparr>sheets = [sheet_of (ustr ''Sheet1'')
                  [[text_cell 1 1 (ustr ''abc''), text_cell 1 2 (ustr ''a.c'')]]
                  [\<lparr>shape_name = ustr ''Box'', shape_text = ustr ''abc''\<rparr>]]\<rparr>"

section \<open>Column names\<close>

text \<open>
  The name a spreadsheet gives to column \<open>n\<close>, counted from 1: \<open>A\<close> to \<open>Z\<close>, then
  \<open>AA\<close>, \<open>AB\<close> and so on. This definition is not taken from the source, which has no
  such function; it is the reference the labels of the result records are compared with.
\<close>

function excel_col_name :: "nat \<Rightarrow> pystr" where
  "excel_col_name n =
     (if n = 0 then [] else excel_col_name ((n - 1) div 26) @ [65 + (n - 1) mod 26])"
  by pat_completeness auto
termination
  by (relation "measure id") auto

declare excel_col_name.simps [simp del]

section \<open>What the loops are expected to compute\<close>

text \<open>
  The definitions of this section are not taken from the source. They say, with \<open>map\<close>
  and \<open>filter\<close>, what the loops of the search and of the replacement are expected to
  leave behind; the theorems below compare the loops with them.
\<close>

definition text_matches ::
  "'p re_module \<Rightarrow> 'p option \<Rightarrow> pystr \<Rightarrow> bool \<Rightarrow> bool \<Rightarrow> pystr \<Rightarrow> bool" where
  "text_matches re pattern s exact_match use_regex t =
     (if use_regex then (case pattern of None \<Rightarrow> False | Some p \<Rightarrow> re_search re p t)
      else if exact_match then t = s
      else py_in s t)"

definition cell_hit :: "pystr \<Rightarrow> cell \<Rightarrow> search_hit" where
  "cell_hit name c = (name, (cell_col c + 64) # py_str_nat (cell_row c), cell_text c)"

definition shape_hit :: "pystr \<Rightarrow> shape \<Rightarrow> search_hit" where
  "shape_hit name sh = (name, shape_label (shape_name sh), shape_text sh)"

definition cols_ok :: "cell list \<Rightarrow> bool" where
  "cols_ok cs = list_all (\<lambda>c. cell_col c + 64 < 1114112) cs"

definition columns_in_range :: "workbook \<Rightarrow> bool" where
  "columns_in_range wb = list_all (\<lambda>ws. list_all cols_ok (used_rows ws)) (sheets wb)"

definition sheet_hits ::
  "'p re_module \<Rightarrow> 'p option \<Rightarrow> pystr \<Rightarrow> bool \<Rightarrow> bool \<Rightarrow> sheet \<Rightarrow> search_hit list" where
  "sheet_hits re pattern s exact_match use_regex ws =
     map (cell_hit (sheet_name ws))
       (filter (\<lambda>c. text_matches re pattern s exact_match use_regex (cell_text c))
          (concat (used_rows ws))) @
     map (shape_hit (sheet_name ws))
       (filter (\<lambda>sh. text_matches re pattern s exact_match use_regex (shape_text sh))
          (shapes ws))"

definition new_or_same ::
  "'p re_module \<Rightarrow> 'p option \<Rightarrow> pystr \<Rightarrow> pystr \<Rightarrow> bool \<Rightarrow> bool \<Rightarrow> pystr \<Rightarrow> pystr" where
  "new_or_same re pattern s r exact_match use_regex t =
     (case new_text re pattern s r exact_match use_regex t of Inl err \<Rightarrow> t | Inr n \<Rightarrow> n)"

definition written_cell ::
  "'p re_module \<Rightarrow> 'p option \<Rightarrow> pystr \<Rightarrow> pystr \<Rightarrow> bool \<Rightarrow> bool \<Rightarrow> cell \<Rightarrow> cell" where
  "written_cell re pattern s r exact_match use_regex c =
     (if new_or_same re pattern s r exact_match use_regex (cell_text c) \<noteq> cell_text c
      then c\<lparr>cell_val := VStr (new_or_same re pattern s r exact_match use_regex (cell_text c))\<rparr>
      else c)"

definition written_shape ::
  "'p re_module \<Rightarrow> 'p option \<Rightarrow> pystr \<Rightarrow> pystr \<Rightarrow> bool \<Rightarrow> bool \<Rightarrow> shape \<Rightarrow> shape" where
  "written_shape re pattern s r exact_match use_regex sh =
     (if new_or_same re pattern s r exact_match use_regex (shape_text sh) \<noteq> shape_text sh
      then sh\<lparr>shape_text := new_or_same re pattern s r exact_match use_regex (shape_text sh)\<rparr>
      else sh)"

definition written_sheet ::
  "'p re_module \<Rightarrow> 'p option \<Rightarrow> pystr \<Rightarrow> pystr \<Rightarrow> bool \<Rightarrow> bool \<Rightarrow> sheet \<Rightarrow> sheet" where
  "written_sheet re pattern s r exact_match use_regex ws =
     ws\<lparr>used_rows := map (map (written_cell re pattern s r exact_match use_regex)) (used_rows ws),
        shapes := map (written_shape re pattern s r exact_match use_regex) (shapes ws)\<rparr>"

definition cell_change ::
  "'p re_module \<Rightarrow> 'p option \<Rightarrow> pystr \<Rightarrow> pystr \<Rightarrow> bool \<Rightarrow> bool \<Rightarrow> pystr \<Rightarrow> cell \<Rightarrow> replace_hit" where
  "cell_change re pattern s r exact_match use_regex name c =
     (name, (cell_col c + 64) # py_str_nat (cell_row c), cell_text c,
      new_or_same re pattern s r exact_match use_regex (cell_text c))"

definition shape_change ::
  "'p re_module \<Rightarrow> 'p option \<Rightarrow> pystr \<Rightarrow> pystr \<Rightarrow> bool \<Rightarrow> bool \<Rightarrow> pystr \<Rightarrow> shape \<Rightarrow> replace_hit" where
  "shape_change re pattern s r exact_match use_regex name sh =
     (name, shape_label (shape_name sh), shape_text sh,
      new_or_same re pattern s r exact_match use_regex (shape_text sh))"

definition sheet_changes ::
  "'p re_module \<Rightarrow> 'p option \<Rightarrow> pystr \<Rightarrow> pystr \<Rightarrow> bool \<Rightarrow> bool \<Rightarrow> sheet \<Rightarrow> replace_hit list" where
  "sheet_changes re pattern s r exact_match use_regex ws =
     map (cell_change re pattern s r exact_match use_regex (sheet_name ws))
       (filter (\<lambda>c. new_or_same re pattern s r exact_match use_regex (cell_text c) \<noteq> cell_text c)
          (concat (used_rows ws))) @
     map (shape_change re pattern s r exact_match use_regex (sheet_name ws))
       (filter (\<lambda>sh. new_or_same re pattern s r exact_match use_regex (shape_text sh) \<noteq> shape_text sh)
          (shapes ws))"

definition book_texts :: "workbook \<Rightarrow> pystr list" where
  "book_texts wb =
     concat (map (\<lambda>ws. map cell_text (concat (used_rows ws)) @ map shape_text (shapes ws))
               (sheets wb))"

section \<open>Properties of the loops\<close>

lemma search_cell_eq:
  assumes "use_regex \<longrightarrow> pattern \<noteq> None" and "cell_col c + 64 < 1114112"
  shows "search_cell re pattern s e use_regex name c results =
         Inr (if text_matches re pattern s e use_regex (cell_text c)
              then results @ [cell_hit name c] else results)"
  using assms
  by (auto simp: search_cell_def text_matches_def append_cell_hit_def py_chr_def cell_hit_def
      Let_def split: option.splits)

lemma search_cells_eq:
  assumes "use_regex \<longrightarrow> pattern \<noteq> None" and "cols_ok cs"
  shows "search_cells re pattern s e use_regex name cs results =
         Inr (results @ map (cell_hit name)
                (filter (\<lambda>c. text_matches re pattern s e use_regex (cell_text c)) cs))"
  using assms(2)
proof (induction cs arbitrary: results)
  case Nil
  then show ?case by simp
next
  case (Cons c cs)
  then have c: "cell_col c + 64 < 1114112" and cs: "cols_ok cs"
    by (simp_all add: cols_ok_def)
  show ?case
    by (simp add: search_cell_eq [OF assms(1) c] Cons.IH [OF cs])
qed

lemma search_rows_eq:
  assumes "use_regex \<longrightarrow> pattern \<noteq> None" and "list_all cols_ok rows"
  shows "search_rows re pattern s e use_regex name rows results =
         Inr (results @ map (cell_hit name)
                (filter (\<lambda>c. text_matches re pattern s e use_regex (cell_text c))
                   (concat rows)))"
  using assms(2)
proof (induction rows arbitrary: results)
  case Nil
  then show ?case by simp
next
  case (Cons row rows)
  then have r: "cols_ok row" and rs: "list_all cols_ok rows" by simp_all
  show ?case
    by (simp add: search_cells_eq [OF assms(1) r] Cons.IH [OF rs])
qed

lemma search_shape_eq:
  assumes "use_regex \<longrightarrow> pattern \<noteq> None"
  shows "search_shape re pattern s e use_regex name sh results =
         Inr (if text_matches re pattern s e use_regex (shape_text sh)
              then results @ [shape_hit name sh] else results)"
  using assms
  by (auto simp: search_shape_def text_matches_def shape_hit_def Let_def split: option.splits)

lemma search_shapes_eq:
  assumes "use_regex \<longrightarrow> pattern \<noteq> None"
  shows "search_shapes re pattern s e use_regex name shs results =
         Inr (results @ map (shape_hit name)
                (filter (\<lambda>sh. text_matches re pattern s e use_regex (shape_text sh)) shs))"
  by (induction shs arbitrary: results) (simp_all add: search_shape_eq [OF assms])

lemma search_sheets_eq:
  assumes "use_regex \<longrightarrow> pattern \<noteq> None"
    and "list_all (\<lambda>ws. list_all cols_ok (used_rows ws)) wss"
  shows "search_sheets re pattern s e use_regex wss results =
         Inr (results @ concat (map (sheet_hits re pattern s e use_regex) wss))"
  using assms(2)
proof (induction wss arbitrary: results)
  case Nil
  then show ?case by simp
next
  case (Cons ws wss)
  then have r: "list_all cols_ok (used_rows ws)"
    and rs: "list_all (\<lambda>ws. list_all cols_ok (used_rows ws)) wss" by simp_all
  show ?case
    by (simp add: search_rows_eq [OF assms(1) r] search_shapes_eq [OF assms(1)]
        Cons.IH [OF rs] sheet_hits_def)
qed

lemma make_pattern_Some:
  "make_pattern re s e use_regex = Inr pattern \<Longrightarrow> use_regex \<longrightarrow> pattern \<noteq> None"
  by (auto simp: make_pattern_def split: if_splits sum.splits)

lemma make_pattern_plain: "make_pattern re s e False = Inr None"
  by (simp add: make_pattern_def)

lemma search_book_eq:
  assumes "files w path = Some wb" and "columns_in_range wb"
    and "make_pattern re s e use_regex = Inr pattern"
  shows "search_string_in_book re w path s e use_regex =
         (Inr (concat (map (sheet_hits re pattern s e use_regex) (sheets wb))),
          w\<lparr>excel_running := False, excel_open := None\<rparr>)"
  using assms(1,3) search_sheets_eq [OF make_pattern_Some [OF assms(3)], of "sheets wb"] assms(2)
  by (simp add: search_string_in_book_def workbooks_open_def dispatch_def wb_close_def
      excel_quit_def columns_in_range_def)

lemma replace_cell_Inr:
  assumes "replace_cell re pattern s r e x name c results = Inr (c', results')"
  shows "c' = written_cell re pattern s r e x c \<and>
         results' = results @
           (if new_or_same re pattern s r e x (cell_text c) \<noteq> cell_text c
            then [cell_change re pattern s r e x name c] else [])"
  using assms
  by (auto simp: replace_cell_def written_cell_def new_or_same_def cell_change_def py_chr_def
      Let_def split: sum.splits if_splits)

lemma replace_cells_Inr:
  assumes "replace_cells re pattern s r e x name cs results = Inr (cs', results')"
  shows "cs' = map (written_cell re pattern s r e x) cs \<and>
         results' = results @ map (cell_change re pattern s r e x name)
           (filter (\<lambda>c. new_or_same re pattern s r e x (cell_text c) \<noteq> cell_text c) cs)"
  using assms
proof (induction cs arbitrary: results cs' results')
  case Nil
  then show ?case by simp
next
  case (Cons c cs)
  from Cons.prems obtain c1 res1 cs1 where
    a: "replace_cell re pattern s r e x name c results = Inr (c1, res1)" and
    b: "replace_cells re pattern s r e x name cs res1 = Inr (cs1, results')" and
    c: "cs' = c1 # cs1"
    by (auto split: sum.splits prod.splits)
  show ?case
    using replace_cell_Inr [OF a] Cons.IH [OF b] c by simp
qed

lemma replace_rows_Inr:
  assumes "replace_rows re pattern s r e x name rows results = Inr (rows', results')"
  shows "rows' = map (map (written_cell re pattern s r e x)) rows \<and>
         results' = results @ map (cell_change re pattern s r e x name)
           (filter (\<lambda>c. new_or_same re pattern s r e x (cell_text c) \<noteq> cell_text c)
              (concat rows))"
  using assms
proof (induction rows arbitrary: results rows' results')
  case Nil
  then show ?case by simp
next
  case (Cons row rows)
  from Cons.prems obtain row1 res1 rows1 where
    a: "replace_cells re pattern s r e x name row results = Inr (row1, res1)" and
    b: "replace_rows re pattern s r e x name rows res1 = Inr (rows1, results')" and
    c: "rows' = row1 # rows1"
    by (auto split: sum.splits prod.splits)
  show ?case
    using replace_cells_Inr [OF a] Cons.IH [OF b] c by simp
qed

lemma replace_shape_Inr:
  assumes "replace_shape re pattern s r e x name sh results = Inr (sh', results')"
  shows "sh' = written_shape re pattern s r e x sh \<and>
         results' = results @
           (if new_or_same re pattern s r e x (shape_text sh) \<noteq> shape_text sh
            then [shape_change re pattern s r e x name sh] else [])"
  using assms
  by (auto simp: replace_shape_def written_shape_def new_or_same_def shape_change_def
      Let_def split: sum.splits if_splits)

lemma replace_shapes_Inr:
  assumes "replace_shapes re pattern s r e x name shs results = Inr (shs', results')"
  shows "shs' = map (written_shape re pattern s r e x) shs \<and>
         results' = results @ map (shape_change re pattern s r e x name)
           (filter (\<lambda>sh. new_or_same re pattern s r e x (shape_text sh) \<noteq> shape_text sh) shs)"
  using assms
proof (induction shs arbitrary: results shs' results')
  case Nil
  then show ?case by simp
next
  case (Cons sh shs)
  from Cons.prems obtain sh1 res1 shs1 where
    a: "replace_shape re pattern s r e x name sh results = Inr (sh1, res1)" and
    b: "replace_shapes re pattern s r e x name shs res1 = Inr (shs1, results')" and
    c: "shs' = sh1 # shs1"
    by (auto split: sum.splits prod.splits)
  show ?case
    using replace_shape_Inr [OF a] Cons.IH [OF b] c by simp
qed

lemma replace_sheets_Inr:
  assumes "replace_sheets re pattern s r e x wss results = Inr (wss', results')"
  shows "wss' = map (written_sheet re pattern s r e x) wss \<and>
         results' = results @ concat (map (sheet_changes re pattern s r e x) wss)"
  using assms
proof (induction wss arbitrary: results wss' results')
  case Nil
  then show ?case by simp
next
  case (Cons ws wss)
  from Cons.prems obtain rows1 res1 shs1 res2 wss1 where
    a: "replace_rows re pattern s r e x (sheet_name ws) (used_rows ws) results = Inr (rows1, res1)" and
    b: "replace_shapes re pattern s r e x (sheet_name ws) (shapes ws) res1 = Inr (shs1, res2)" and
    c: "replace_sheets re pattern s r e x wss res2 = Inr (wss1, results')" and
    d: "wss' = ws\<lparr>used_rows := rows1, shapes := shs1\<rparr> # wss1"
    by (auto split: sum.splits prod.splits)
  show ?case
    using replace_rows_Inr [OF a] replace_shapes_Inr [OF b] Cons.IH [OF c] d
    by (simp add: written_sheet_def sheet_changes_def)
qed

lemma new_text_plain:
  "\<exists>n. new_text re pattern s r e False t = Inr n"
  by (simp add: new_text_def)

lemma replace_cell_total:
  assumes "\<And>t. \<exists>n. new_text re pattern s r e x t = Inr n" and "cell_col c + 64 < 1114112"
  shows "\<exists>c' results'. replace_cell re pattern s r e x name c results = Inr (c', results')"
proof -
  obtain n where "new_text re pattern s r e x (cell_text c) = Inr n"
    using assms(1) by blast
  then show ?thesis
    using assms(2) by (simp add: replace_cell_def py_chr_def Let_def)
qed

lemma replace_cells_total:
  assumes "\<And>t. \<exists>n. new_text re pattern s r e x t = Inr n" and "cols_ok cs"
  shows "\<exists>cs' results'. replace_cells re pattern s r e x name cs results = Inr (cs', results')"
  using assms(2)
proof (induction cs arbitrary: results)
  case Nil
  then show ?case by simp
next
  case (Cons c cs)
  then have c: "cell_col c + 64 < 1114112" and cs: "cols_ok cs"
    by (simp_all add: cols_ok_def)
  obtain c1 res1 where a: "replace_cell re pattern s r e x name c results = Inr (c1, res1)"
    using replace_cell_total [OF assms(1) c] by blast
  obtain cs1 res2 where b: "replace_cells re pattern s r e x name cs res1 = Inr (cs1, res2)"
    using Cons.IH [OF cs] by blast
  show ?case by (simp add: a b)
qed

lemma replace_rows_total:
  assumes "\<And>t. \<exists>n. new_text re pattern s r e x t = Inr n" and "list_all cols_ok rows"
  shows "\<exists>rows' results'. replace_rows re pattern s r e x name rows results = Inr (rows', results')"
  using assms(2)
proof (induction rows arbitrary: results)
  case Nil
  then show ?case by simp
next
  case (Cons row rows)
  then have r: "cols_ok row" and rs: "list_all cols_ok rows" by simp_all
  obtain row1 res1 where a: "replace_cells re pattern s r e x name row results = Inr (row1, res1)"
    using replace_cells_total [OF assms(1) r] by blast
  obtain rows1 res2 where b: "replace_rows re pattern s r e x name rows res1 = Inr (rows1, res2)"
    using Cons.IH [OF rs] by blast
  show ?case by (simp add: a b)
qed

lemma replace_shapes_total:
  assumes "\<And>t. \<exists>n. new_text re pattern s r e x t = Inr n"
  shows "\<exists>shs' results'. replace_shapes re pattern s r e x name shs results = Inr (shs', results')"
proof (induction shs arbitrary: results)
  case Nil
  then show ?case by simp
next
  case (Cons sh shs)
  obtain n where n: "new_text re pattern s r e x (shape_text sh) = Inr n"
    using assms by blast
  then have "\<exists>sh1 res1. replace_shape re pattern s r e x name sh results = Inr (sh1, res1)"
    by (simp add: replace_shape_def Let_def)
  then obtain sh1 res1 where a: "replace_shape re pattern s r e x name sh results = Inr (sh1, res1)"
    by blast
  obtain shs1 res2 where b: "replace_shapes re pattern s r e x name shs res1 = Inr (shs1, res2)"
    using Cons.IH by blast
  show ?case by (simp add: a b)
qed

lemma replace_sheets_total:
  assumes "\<And>t. \<exists>n. new_text re pattern s r e x t = Inr n"
    and "list_all (\<lambda>ws. list_all cols_ok (used_rows ws)) wss"
  shows "\<exists>wss' results'. replace_sheets re pattern s r e x wss results = Inr (wss', results')"
  using assms(2)
proof (induction wss arbitrary: results)
  case Nil
  then show ?case by simp
next
  case (Cons ws wss)
  then have r: "list_all cols_ok (used_rows ws)"
    and rs: "list_all (\<lambda>ws. list_all cols_ok (used_rows ws)) wss" by simp_all
  obtain rows1 res1 where
    a: "replace_rows re pattern s r e x (sheet_name ws) (used_rows ws) results = Inr (rows1, res1)"
    using replace_rows_total [OF assms(1) r] by blast
  obtain shs1 res2 where
    b: "replace_shapes re pattern s r e x (sheet_name ws) (shapes ws) res1 = Inr (shs1, res2)"
    using replace_shapes_total [OF assms(1)] by blast
  obtain wss1 res3 where c: "replace_sheets re pattern s r e x wss res2 = Inr (wss1, res3)"
    using Cons.IH [OF rs] by blast
  show ?case by (simp add: a b c)
qed







lemma replace_book_Inr:
  assumes "files w path = Some wb"
    and "replace_string_in_book re w path s r e x = (Inr results, w')"
  shows "\<exists>pattern. make_pattern re s e x = Inr pattern \<and>
           files w' path =
             Some (wb\<lparr>sheets := map (written_sheet re pattern s r e x) (sheets wb)\<rparr>) \<and>
           results = concat (map (sheet_changes re pattern s r e x) (sheets wb))"
proof -
  from assms obtain pattern sheets' where
    p: "make_pattern re s e x = Inr pattern" and
    l: "replace_sheets re pattern s r e x (sheets wb) [] = Inr (sheets', results)" and
    f: "files w' path = Some (wb\<lparr>sheets := sheets'\<rparr>)"
    by (auto simp: replace_string_in_book_def workbooks_open_def dispatch_def print_def
        wb_save_def wb_close_def excel_quit_def split: sum.splits prod.splits if_splits
        option.splits)
  show ?thesis
    using replace_sheets_Inr [OF l] p f by simp
qed

lemma replace_book_total:
  assumes "files w path = Some wb" and "writable w path" and "columns_in_range wb"
  shows "\<exists>results w'. replace_string_in_book re w path s r e False = (Inr results, w')"
proof -
  obtain sheets' results where
    l: "replace_sheets re None s r e False (sheets wb) [] = Inr (sheets', results)"
    using replace_sheets_total [OF new_text_plain, of "sheets wb"] assms(3)
    unfolding columns_in_range_def by blast
  show ?thesis
    using assms(1,2) l
    by (simp add: replace_string_in_book_def workbooks_open_def dispatch_def print_def
        wb_save_def wb_close_def excel_quit_def make_pattern_def)
qed

section \<open>Properties of the string operations\<close>

lemma py_sorted_set: "set (py_sorted xs r) = set xs"
  by (simp add: py_sorted_def)

lemma py_sorted_length: "length (py_sorted xs r) = length xs"
  by (simp add: py_sorted_def)

lemma py_sorted_asc: "distinct xs \<Longrightarrow> sorted_wrt (<) (py_sorted xs False)"
  by (simp add: py_sorted_def strict_sorted_iff)

lemma py_sorted_desc: "distinct xs \<Longrightarrow> sorted_wrt (\<lambda>x y. y < x) (py_sorted xs True)"
  by (simp add: py_sorted_def sorted_wrt_rev strict_sorted_iff)

lemma excel_col_name_single:
  "1 \<le> n \<Longrightarrow> n \<le> 26 \<Longrightarrow> excel_col_name n = [n + 64]"
proof -
  assume a: "1 \<le> n" "n \<le> 26"
  then have d: "(n - 1) div 26 = 0" and m: "(n - 1) mod 26 = n - 1" by simp_all
  have "excel_col_name n = excel_col_name 0 @ [65 + (n - 1)]"
    using a d m by (subst excel_col_name.simps) simp
  also have "excel_col_name 0 = []" by (subst excel_col_name.simps) simp
  finally show ?thesis using a by simp
qed

lemma excel_col_name_nonempty: "1 \<le> n \<Longrightarrow> excel_col_name n \<noteq> []"
  by (subst excel_col_name.simps) simp

lemma excel_col_name_long: "26 < n \<Longrightarrow> 2 \<le> length (excel_col_name n)"
proof -
  assume a: "26 < n"
  then have "1 \<le> (n - 1) div 26" by simp
  then have "excel_col_name ((n - 1) div 26) \<noteq> []" by (rule excel_col_name_nonempty)
  then have "1 \<le> length (excel_col_name ((n - 1) div 26))"
    by (cases "excel_col_name ((n - 1) div 26)") simp_all
  moreover have "excel_col_name n = excel_col_name ((n - 1) div 26) @ [65 + (n - 1) mod 26]"
    using a by (subst excel_col_name.simps) simp
  ultimately show ?thesis by simp
qed

lemma py_in_nil: "py_in [] t"
  by (induction t) simp_all

lemma py_in_iff: "py_in s t \<longleftrightarrow> (\<exists>pre post. t = pre @ s @ post)"
proof (induction t)
  case Nil
  then show ?case by auto
next
  case (Cons c cs)
  show ?case
  proof
    assume "py_in s (c # cs)"
    then consider "take (length s) (c # cs) = s" | "py_in s cs" by auto
    then show "\<exists>pre post. c # cs = pre @ s @ post"
    proof cases
      case 1
      then have "c # cs = [] @ s @ drop (length s) (c # cs)"
        by (metis append_Nil append_take_drop_id)
      then show ?thesis by blast
    next
      case 2
      then obtain pre post where "cs = pre @ s @ post" using Cons.IH by blast
      then have "c # cs = (c # pre) @ s @ post" by simp
      then show ?thesis by blast
    qed
  next
    assume "\<exists>pre post. c # cs = pre @ s @ post"
    then obtain pre post where eq: "c # cs = pre @ s @ post" by blast
    show "py_in s (c # cs)"
    proof (cases pre)
      case Nil
      then have "take (length s) (c # cs) = s" using eq by simp
      then show ?thesis by simp
    next
      case (Cons p ps)
      then have "cs = ps @ s @ post" using eq by simp
      then have "py_in s cs" using Cons.IH by blast
      then show ?thesis by simp
    qed
  qed
qed

lemma py_str_nat_digit: "n < 10 \<Longrightarrow> py_str_nat n = [48 + n]"
  by (simp add: py_str_nat.simps)

lemmas book_defs = one_file_world_def sheet_of_def text_cell_def blank_cell_def demo_path_def
  three_sheets_def data_book_def data_book_sized_def one_cell_book_def foo_book_def foo_book_replaced_def
  mixed_book_def wide_book_def dot_book_def

lemmas expect_defs = written_sheet_def written_cell_def written_shape_def sheet_changes_def
  cell_change_def shape_change_def new_or_same_def columns_in_range_def cols_ok_def
  text_matches_def book_texts_def sheet_hits_def cell_hit_def shape_hit_def

lemmas re_defs = re_fragment_def re_escape_def re_special_def re_plain_def re_cons_def
  ascii_alnum_def

lemmas run_defs = search_string_in_book_def replace_string_in_book_def workbooks_open_def
  dispatch_def print_def wb_save_def wb_close_def excel_quit_def make_pattern_def
  search_cell_def search_shape_def append_cell_hit_def replace_cell_def replace_shape_def
  new_text_def cell_text_def py_chr_def shape_label_def Let_def

section \<open>Properties of the fragment of the regular-expression library\<close>

lemma special_not_alnum: "c \<in> set re_special \<Longrightarrow> \<not> ascii_alnum c"
  by (auto simp: re_special_def ustr_def ascii_alnum_def)

lemma re_plain_literal: "c \<notin> set re_special \<Longrightarrow> re_plain c = Inr (One (Lit c))"
  by (auto simp: re_special_def ustr_def re_plain_def)

lemma backslash_special: "92 \<in> set re_special"
  by (simp add: re_special_def)

lemma re_parse_plain_cons:
  "c \<noteq> 92 \<Longrightarrow> rest \<noteq> [] \<Longrightarrow> re_parse (c # rest) = re_cons (re_plain c) (re_parse rest)"
  by (cases rest) simp_all

lemma re_parse_escaped:
  "re_parse (re_escape s @ [36]) = Inr (map (\<lambda>c. One (Lit c)) s @ [Eol])"
proof (induction s)
  case Nil
  then show ?case by (simp add: re_escape_def re_plain_def re_cons_def)
next
  case (Cons c s)
  have ih: "re_parse (re_escape s @ [36]) = Inr (map (\<lambda>c. One (Lit c)) s @ [Eol])"
    using Cons.IH .
  show ?case
  proof (cases "c \<in> set re_special")
    case True
    then have "re_escape (c # s) @ [36] = 92 # c # (re_escape s @ [36])"
      by (simp add: re_escape_def)
    then show ?thesis
      using special_not_alnum [OF True] ih by (simp add: re_cons_def)
  next
    case False
    then have e: "re_escape (c # s) @ [36] = c # (re_escape s @ [36])"
      by (simp add: re_escape_def)
    have ne: "c \<noteq> 92" using False backslash_special by auto
    show ?thesis
      using re_parse_plain_cons [OF ne, of "re_escape s @ [36]"] re_plain_literal [OF False] ih
      by (simp add: e re_cons_def)
  qed
qed

lemma make_pattern_exact_regex:
  "make_pattern re_fragment s True True = Inr (Some (Bol # map (\<lambda>c. One (Lit c)) s @ [Eol]))"
proof -
  have "re_parse (94 # (re_escape s @ [36])) =
          re_cons (re_plain 94) (re_parse (re_escape s @ [36]))"
    by (rule re_parse_plain_cons) simp_all
  then show ?thesis
    by (simp add: make_pattern_def re_fragment_def ustr_def re_parse_escaped re_plain_def
        re_cons_def)
qed

lemma match_literal:
  "match_here (map (\<lambda>c. One (Lit c)) s @ [Eol]) b t \<longleftrightarrow> t = s \<or> t = s @ [10]"
proof (induction s arbitrary: b t)
  case Nil
  then show ?case by auto
next
  case (Cons c s)
  then show ?case by (cases t) auto
qed

lemma search_bol_later: "search_from (Bol # p) False t = False"
  by (induction t) simp_all

lemma search_anchored:
  "search_from (Bol # map (\<lambda>c. One (Lit c)) s @ [Eol]) True t \<longleftrightarrow> t = s \<or> t = s @ [10]"
  by (cases t) (simp_all add: match_literal search_bol_later)

section \<open>Properties of the library's view of a workbook\<close>

lemma sheetnames_loaded: "sheetnames (loaded wb) = sheetnames wb"
  by (simp add: sheetnames_def loaded_def comp_def)

lemma names_unique_distinct: "names_unique wb \<Longrightarrow> distinct (sheetnames wb)"
  by (simp add: names_unique_def distinct_map)

section \<open>Properties of the floating-point arithmetic\<close>
























section \<open>The claims\<close>

subsection \<open>Sorting the sheet names\<close>

text \<open>
  C5, counterexample. The order argument is lower-cased before it is tested, so \<open>ASC\<close>,
  which is neither \<open>asc\<close> nor \<open>desc\<close>, is accepted and sorts ascending.
\<close>

theorem sort_sheet_uppercase_order:
  "ustr ''ASC'' \<noteq> ustr ''asc'' \<and> ustr ''ASC'' \<noteq> ustr ''desc'' \<and>
   names_unique three_sheets \<and>
   sort_sheet (one_file_world demo_path three_sheets) demo_path (ustr ''ASC'')
     = Inr [ustr ''C'', ustr ''a'', ustr ''b'']"
  by (simp add: sort_sheet_def lower_def lower_char_def ustr_def book_defs
      load_workbook_def loaded_def sheetnames_def names_unique_def py_sorted_def)

text \<open>
  C5, as amended. \<open>sort_sheet\<close> signals the invalid-argument failure for every order
  value whose lower-case form is neither \<open>asc\<close> nor \<open>desc\<close>, before the workbook is
  opened. For an order value whose lower-case form is \<open>asc\<close> (\<open>desc\<close>) and a workbook
  that opens, its sheet names distinct also when case is ignored, it returns the same set
  of names, as many as there are sheets, in strictly ascending (descending) order of the
  code-point-wise lexicographic order, which distinguishes upper and lower case.
\<close>

theorem sort_sheet_sorted:
  "(lower order0 \<noteq> ustr ''asc'' \<and> lower order0 \<noteq> ustr ''desc''
      \<longrightarrow> sort_sheet w path order0 = Inl order_error) \<and>
   (files w path = Some wb \<and> names_unique wb \<and> lower order0 = ustr ''asc''
      \<longrightarrow> (\<exists>xs. sort_sheet w path order0 = Inr xs \<and> set xs = set (sheetnames wb) \<and>
                length xs = length (sheetnames wb) \<and> sorted_wrt (\<lambda>x y. x < y) xs)) \<and>
   (files w path = Some wb \<and> names_unique wb \<and> lower order0 = ustr ''desc''
      \<longrightarrow> (\<exists>xs. sort_sheet w path order0 = Inr xs \<and> set xs = set (sheetnames wb) \<and>
                length xs = length (sheetnames wb) \<and> sorted_wrt (\<lambda>x y. y < x) xs))"
proof -
  have neq: "ustr ''asc'' \<noteq> ustr ''desc''" by (simp add: ustr_def)
  show ?thesis
    using neq
    by (auto simp: sort_sheet_def Let_def load_workbook_def sheetnames_loaded py_sorted_set
        py_sorted_length py_sorted_asc py_sorted_desc dest: names_unique_distinct)
qed

text \<open>The three cases of the theorem on the workbook with the sheets \<open>b\<close>, \<open>C\<close>, \<open>a\<close>:
  the order \<open>up\<close> is refused, \<open>Asc\<close> sorts ascending, \<open>desc\<close> descending, the upper-case
  \<open>C\<close> before the lower-case letters.\<close>

theorem sort_sheet_sorted_witness:
  "lower (ustr ''up'') \<noteq> ustr ''asc'' \<and> lower (ustr ''up'') \<noteq> ustr ''desc'' \<and>
   sort_sheet (one_file_world demo_path three_sheets) demo_path (ustr ''up'')
     = Inl order_error \<and>
   files (one_file_world demo_path three_sheets) demo_path = Some three_sheets \<and>
   names_unique three_sheets \<and>
   lower (ustr ''Asc'') = ustr ''asc'' \<and>
   sort_sheet (one_file_world demo_path three_sheets) demo_path (ustr ''Asc'')
     = Inr [ustr ''C'', ustr ''a'', ustr ''b''] \<and>
   lower (ustr ''desc'') = ustr ''desc'' \<and>
   sort_sheet (one_file_world demo_path three_sheets) demo_path (ustr ''desc'')
     = Inr [ustr ''b'', ustr ''a'', ustr ''C'']"
  using
    sort_sheet_sorted [of "ustr ''up''" "one_file_world demo_path three_sheets" demo_path
      three_sheets]
    sort_sheet_sorted [of "ustr ''Asc''" "one_file_world demo_path three_sheets" demo_path
      three_sheets]
    sort_sheet_sorted [of "ustr ''desc''" "one_file_world demo_path three_sheets" demo_path
      three_sheets]
  by (simp add: sort_sheet_def lower_def lower_char_def ustr_def book_defs
      load_workbook_def loaded_def sheetnames_def names_unique_def py_sorted_def)

subsection \<open>A sheet name that does not exist\<close>

text \<open>
  C10. \<open>change_font\<close> does not check the sheet name: for a name that the workbook does
  not have, the lookup of the sheet raises \<open>KeyError\<close>, before a cell is changed and
  before the save, and the world, the workbook file included, is as it was.
  \<open>convert_csv\<close> tests the name first and raises its own \<open>ValueError\<close>.
\<close>

theorem change_font_missing_sheet:
  assumes "files w path = Some wb" and "name \<notin> set (sheetnames wb)"
  shows "change_font w path name font_name =
           (Inl (KeyError (ustr ''Worksheet '' @ name @ ustr '' does not exist.'')), w) \<and>
         convert_csv w path name csv_path = (Inl (no_sheet_error name), w)"
proof -
  have "find (\<lambda>s. sheet_name s = name) (sheets (loaded wb)) = None"
    using assms(2) by (auto simp: find_None_iff sheetnames_def loaded_def)
  then show ?thesis
    using assms
    by (simp add: change_font_def convert_csv_def load_workbook_def get_sheet_def
        sheetnames_loaded)
qed

theorem change_font_missing_sheet_witness:
  "files (one_file_world demo_path data_book) demo_path = Some data_book \<and>
   ustr ''Summary'' \<notin> set (sheetnames data_book) \<and>
   change_font (one_file_world demo_path data_book) demo_path (ustr ''Summary'')
     (ustr ''Meiryo UI'') =
     (Inl (KeyError (ustr ''Worksheet Summary does not exist.'')),
      one_file_world demo_path data_book) \<and>
   convert_csv (one_file_world demo_path data_book) demo_path (ustr ''Summary'')
     (ustr ''out.csv'') =
     (Inl (no_sheet_error (ustr ''Summary'')), one_file_world demo_path data_book)"
proof -
  have f: "files (one_file_world demo_path data_book) demo_path = Some data_book"
    by (simp add: one_file_world_def)
  have n: "ustr ''Summary'' \<notin> set (sheetnames data_book)"
    by (simp add: sheetnames_def sheet_of_def data_book_def ustr_def)
  show ?thesis
    using f n change_font_missing_sheet [OF f n, of "ustr ''Meiryo UI''" "ustr ''out.csv''"]
    by (simp add: ustr_def)
qed

subsection \<open>Literal search\<close>

text \<open>
  C4. With regular expressions off, a cell is a hit of the search when the search string
  occurs somewhere in its text (exact match off) or when its text is the search string
  (exact match on). The text of a cell is its value as a string, the empty string for a
  cell without value. The literal \<open>abc\<close> is found in a cell holding \<open>abcxyz\<close> with exact
  match off and not with exact match on, and it is found with exact match on in a cell
  holding \<open>abc\<close>.
\<close>

theorem search_literal_matching:
  "search_cell re pattern s False False name c results =
     (if (\<exists>pre post. cell_text c = pre @ s @ post)
      then append_cell_hit name c (cell_text c) results else Inr results) \<and>
   search_cell re pattern s True False name c results =
     (if cell_text c = s
      then append_cell_hit name c (cell_text c) results else Inr results) \<and>
   cell_text c =
     (case cell_val c of
        VNone \<Rightarrow> []
      | VStr t \<Rightarrow> t
      | VBool b \<Rightarrow> (if b then ustr ''True'' else ustr ''False'')
      | VScalar t \<Rightarrow> t) \<and>
   fst (search_string_in_book re (one_file_world demo_path (one_cell_book (ustr ''abcxyz'')))
          demo_path (ustr ''abc'') False False)
     = Inr [(ustr ''Sheet1'', ustr ''A1'', ustr ''abcxyz'')] \<and>
   fst (search_string_in_book re (one_file_world demo_path (one_cell_book (ustr ''abcxyz'')))
          demo_path (ustr ''abc'') True False)
     = Inr [] \<and>
   fst (search_string_in_book re (one_file_world demo_path (one_cell_book (ustr ''abc'')))
          demo_path (ustr ''abc'') True False)
     = Inr [(ustr ''Sheet1'', ustr ''A1'', ustr ''abc'')]"
proof -
  have a: "search_cell re pattern s False False name c results =
     (if (\<exists>pre post. cell_text c = pre @ s @ post)
      then append_cell_hit name c (cell_text c) results else Inr results)"
    by (simp add: search_cell_def Let_def py_in_iff)
  have b: "search_cell re pattern s True False name c results =
     (if cell_text c = s
      then append_cell_hit name c (cell_text c) results else Inr results)"
    by (simp add: search_cell_def Let_def)
  have c: "cell_text c =
     (case cell_val c of
        VNone \<Rightarrow> []
      | VStr t \<Rightarrow> t
      | VBool b \<Rightarrow> (if b then ustr ''True'' else ustr ''False'')
      | VScalar t \<Rightarrow> t)"
    by (simp add: cell_text_def split: variant.splits)
  have d: "fst (search_string_in_book re (one_file_world demo_path (one_cell_book (ustr ''abcxyz'')))
          demo_path (ustr ''abc'') False False)
     = Inr [(ustr ''Sheet1'', ustr ''A1'', ustr ''abcxyz'')]"
    by (simp add: run_defs book_defs ustr_def py_str_nat_digit)
  have e: "fst (search_string_in_book re (one_file_world demo_path (one_cell_book (ustr ''abcxyz'')))
          demo_path (ustr ''abc'') True False) = Inr []"
    by (simp add: run_defs book_defs ustr_def py_str_nat_digit)
  have f: "fst (search_string_in_book re (one_file_world demo_path (one_cell_book (ustr ''abc'')))
          demo_path (ustr ''abc'') True False)
     = Inr [(ustr ''Sheet1'', ustr ''A1'', ustr ''abc'')]"
    by (simp add: run_defs book_defs ustr_def py_str_nat_digit)
  show ?thesis using a b c d e f by blast
qed

subsection \<open>Replacement\<close>

text \<open>
  C3. When \<open>replace_string_in_book\<close> returns its results for a workbook that opens, the
  workbook it has saved has, in every cell and every shape, the new text where the new
  text differs from the old one (\<open>written_cell\<close>, \<open>written_shape\<close>) and is unchanged
  elsewhere, and the results are, in the order of the traversal, one record of sheet,
  label, old and new text for exactly the cells and shapes whose new text differs
  (\<open>sheet_changes\<close>). With regular expressions off, a writable file and columns within
  the range of \<open>chr\<close>, it does return. Replacing \<open>foo\<close> by \<open>bar\<close> turns the cell
  \<open>foobar\<close> into \<open>barbar\<close> with the record of both texts, and leaves the cell \<open>qux\<close>
  as it is, without a record.
\<close>

theorem replace_writes_iff_changed:
  assumes "files w path = Some wb"
  shows "(\<forall>results w'. replace_string_in_book re w path s r e x = (Inr results, w') \<longrightarrow>
            (\<exists>pattern. make_pattern re s e x = Inr pattern \<and>
               files w' path =
                 Some (wb\<lparr>sheets := map (written_sheet re pattern s r e x) (sheets wb)\<rparr>) \<and>
               results = concat (map (sheet_changes re pattern s r e x) (sheets wb)))) \<and>
         (writable w path \<and> columns_in_range wb \<longrightarrow>
            (\<exists>results w'. replace_string_in_book re w path s r e False = (Inr results, w'))) \<and>
         replace_string_in_book re (one_file_world demo_path foo_book) demo_path
             (ustr ''foo'') (ustr ''bar'') False False =
           (Inr [(ustr ''Sheet1'', ustr ''A1'', ustr ''foobar'', ustr ''barbar''),
                 (ustr ''Sheet1'', shape_label (ustr ''Box''), ustr ''food'', ustr ''bard'')],
            (one_file_world demo_path foo_book_replaced)\<lparr>stdout := [OpeningFile demo_path]\<rparr>)"
proof (intro conjI allI impI)
  fix results w'
  assume "replace_string_in_book re w path s r e x = (Inr results, w')"
  then show "\<exists>pattern. make_pattern re s e x = Inr pattern \<and>
               files w' path =
                 Some (wb\<lparr>sheets := map (written_sheet re pattern s r e x) (sheets wb)\<rparr>) \<and>
               results = concat (map (sheet_changes re pattern s r e x) (sheets wb))"
    by (rule replace_book_Inr [OF assms])
next
  assume "writable w path \<and> columns_in_range wb"
  then show "\<exists>results w'. replace_string_in_book re w path s r e False = (Inr results, w')"
    using replace_book_total [OF assms] by blast
next
  show "replace_string_in_book re (one_file_world demo_path foo_book) demo_path
             (ustr ''foo'') (ustr ''bar'') False False =
           (Inr [(ustr ''Sheet1'', ustr ''A1'', ustr ''foobar'', ustr ''barbar''),
                 (ustr ''Sheet1'', shape_label (ustr ''Box''), ustr ''food'', ustr ''bard'')],
            (one_file_world demo_path foo_book_replaced)\<lparr>stdout := [OpeningFile demo_path]\<rparr>)"
    by (simp add: run_defs book_defs ustr_def py_str_nat_digit)
qed

theorem replace_writes_iff_changed_witness:
  "files (one_file_world demo_path foo_book) demo_path = Some foo_book \<and>
   writable (one_file_world demo_path foo_book) demo_path \<and>
   columns_in_range foo_book \<and>
   replace_string_in_book re_fragment (one_file_world demo_path foo_book) demo_path
       (ustr ''foo'') (ustr ''bar'') False False =
     (Inr [(ustr ''Sheet1'', ustr ''A1'', ustr ''foobar'', ustr ''barbar''),
           (ustr ''Sheet1'', shape_label (ustr ''Box''), ustr ''food'', ustr ''bard'')],
      (one_file_world demo_path foo_book_replaced)\<lparr>stdout := [OpeningFile demo_path]\<rparr>) \<and>
   make_pattern re_fragment (ustr ''foo'') False False = Inr None \<and>
   foo_book\<lparr>sheets := map (written_sheet re_fragment None (ustr ''foo'') (ustr ''bar'') False False)
                         (sheets foo_book)\<rparr> = foo_book_replaced \<and>
   concat (map (sheet_changes re_fragment None (ustr ''foo'') (ustr ''bar'') False False)
             (sheets foo_book)) =
     [(ustr ''Sheet1'', ustr ''A1'', ustr ''foobar'', ustr ''barbar''),
      (ustr ''Sheet1'', shape_label (ustr ''Box''), ustr ''food'', ustr ''bard'')]"
proof -
  have f: "files (one_file_world demo_path foo_book) demo_path = Some foo_book"
    by (simp add: one_file_world_def)
  show ?thesis
    using f replace_writes_iff_changed [OF f, of re_fragment "ustr ''foo''" "ustr ''bar''" False False]
    by (simp add: run_defs book_defs expect_defs ustr_def py_str_nat_digit)
qed

subsection \<open>A workbook that cannot be opened\<close>




subsection \<open>The search changes nothing\<close>

text \<open>
  C8. For every input, \<open>search_string_in_book\<close> leaves the workbook files, their
  permissions, the CSV files and the standard output as they were. When it returns its
  results, the application holds no workbook open any more and does not run any more.
  For a workbook that opens, a pattern that compiles and columns within the range of
  \<open>chr\<close>, it returns the hits of all sheets in the order of the traversal.
\<close>

theorem search_is_read_only:
  "files (snd (search_string_in_book re w path s e x)) = files w \<and>
   writable (snd (search_string_in_book re w path s e x)) = writable w \<and>
   csv_files (snd (search_string_in_book re w path s e x)) = csv_files w \<and>
   stdout (snd (search_string_in_book re w path s e x)) = stdout w \<and>
   (\<forall>results. fst (search_string_in_book re w path s e x) = Inr results \<longrightarrow>
      snd (search_string_in_book re w path s e x) =
        w\<lparr>excel_running := False, excel_open := None\<rparr>) \<and>
   (\<forall>wb pattern. files w path = Some wb \<and> columns_in_range wb \<and>
        make_pattern re s e x = Inr pattern \<longrightarrow>
      search_string_in_book re w path s e x =
        (Inr (concat (map (sheet_hits re pattern s e x) (sheets wb))),
         w\<lparr>excel_running := False, excel_open := None\<rparr>))"
proof -
  have a: "files (snd (search_string_in_book re w path s e x)) = files w \<and>
   writable (snd (search_string_in_book re w path s e x)) = writable w \<and>
   csv_files (snd (search_string_in_book re w path s e x)) = csv_files w \<and>
   stdout (snd (search_string_in_book re w path s e x)) = stdout w"
    by (simp add: search_string_in_book_def workbooks_open_def dispatch_def wb_close_def
        excel_quit_def split: option.splits sum.splits)
  have b: "\<forall>results. fst (search_string_in_book re w path s e x) = Inr results \<longrightarrow>
      snd (search_string_in_book re w path s e x) =
        w\<lparr>excel_running := False, excel_open := None\<rparr>"
    by (simp add: search_string_in_book_def workbooks_open_def dispatch_def wb_close_def
        excel_quit_def split: option.splits sum.splits)
  have c: "\<forall>wb pattern. files w path = Some wb \<and> columns_in_range wb \<and>
        make_pattern re s e x = Inr pattern \<longrightarrow>
      search_string_in_book re w path s e x =
        (Inr (concat (map (sheet_hits re pattern s e x) (sheets wb))),
         w\<lparr>excel_running := False, excel_open := None\<rparr>)"
    by (simp add: search_book_eq)
  show ?thesis using a b c by blast
qed

theorem search_is_read_only_witness:
  "files (one_file_world demo_path mixed_book) demo_path = Some mixed_book \<and>
   columns_in_range mixed_book \<and>
   make_pattern re_fragment (ustr ''a.c'') False True
     = Inr (Some [One (Lit 97), One AnyChar, One (Lit 99)]) \<and>
   search_string_in_book re_fragment (one_file_world demo_path mixed_book) demo_path
       (ustr ''a.c'') False True =
     (Inr [(ustr ''Sheet1'', ustr ''A1'', ustr ''abc''),
           (ustr ''Sheet2'', ustr ''C2'', ustr ''a.c'')],
      one_file_world demo_path mixed_book)"
proof -
  have f: "files (one_file_world demo_path mixed_book) demo_path = Some mixed_book"
    by (simp add: one_file_world_def)
  have c: "columns_in_range mixed_book"
    by (simp add: columns_in_range_def cols_ok_def book_defs)
  have p: "make_pattern re_fragment (ustr ''a.c'') False True
     = Inr (Some [One (Lit 97), One AnyChar, One (Lit 99)])"
    by (simp add: make_pattern_def re_fragment_def re_plain_def re_cons_def ustr_def)
  have w: "(one_file_world demo_path mixed_book)\<lparr>excel_running := False, excel_open := None\<rparr>
     = one_file_world demo_path mixed_book"
    by (simp add: one_file_world_def)
  have h: "concat (map (sheet_hits re_fragment (Some [One (Lit 97), One AnyChar, One (Lit 99)])
                     (ustr ''a.c'') False True) (sheets mixed_book)) =
     [(ustr ''Sheet1'', ustr ''A1'', ustr ''abc''),
      (ustr ''Sheet2'', ustr ''C2'', ustr ''a.c'')]"
    by (simp add: expect_defs book_defs re_fragment_def cell_text_def ustr_def
        py_str_nat_digit)
  show ?thesis
    using f c p w h
      search_is_read_only [of re_fragment "one_file_world demo_path mixed_book" demo_path
        "ustr ''a.c''" False True]
    by simp
qed

subsection \<open>Searching for the empty string\<close>

text \<open>
  C9. With regular expressions and exact match off, the search for the empty string
  returns one record for every cell of the used range of every sheet, the cells without
  value included, and one for every shape: as many records as there are cells and
  shapes.
\<close>

theorem search_empty_string_finds_all:
  assumes "files w path = Some wb" and "columns_in_range wb"
  shows "fst (search_string_in_book re w path [] False False) =
           Inr (concat (map (\<lambda>ws. map (cell_hit (sheet_name ws)) (concat (used_rows ws)) @
                                   map (shape_hit (sheet_name ws)) (shapes ws))
                          (sheets wb))) \<and>
         (\<exists>hits. fst (search_string_in_book re w path [] False False) = Inr hits \<and>
            length hits =
              sum_list (map (\<lambda>ws. length (concat (used_rows ws)) + length (shapes ws))
                          (sheets wb)))"
proof -
  have m: "\<And>t. text_matches re None [] False False t"
    by (simp add: text_matches_def py_in_nil)
  have h: "sheet_hits re None [] False False =
             (\<lambda>ws. map (cell_hit (sheet_name ws)) (concat (used_rows ws)) @
                   map (shape_hit (sheet_name ws)) (shapes ws))"
    by (rule ext) (simp add: sheet_hits_def m)
  have eq: "fst (search_string_in_book re w path [] False False) =
           Inr (concat (map (\<lambda>ws. map (cell_hit (sheet_name ws)) (concat (used_rows ws)) @
                                   map (shape_hit (sheet_name ws)) (shapes ws))
                          (sheets wb)))"
    using search_book_eq [OF assms make_pattern_plain, of re "[]" False] by (simp add: h)
  have len: "length (concat (map (\<lambda>ws. map (cell_hit (sheet_name ws)) (concat (used_rows ws)) @
                                   map (shape_hit (sheet_name ws)) (shapes ws))
                          (sheets wb))) =
             sum_list (map (\<lambda>ws. length (concat (used_rows ws)) + length (shapes ws))
                          (sheets wb))"
    by (simp add: length_concat comp_def)
  show ?thesis using eq len by simp
qed

theorem search_empty_string_finds_all_witness:
  "files (one_file_world demo_path mixed_book) demo_path = Some mixed_book \<and>
   columns_in_range mixed_book \<and>
   fst (search_string_in_book re_fragment (one_file_world demo_path mixed_book) demo_path
          [] False False) =
     Inr [(ustr ''Sheet1'', ustr ''A1'', ustr ''abc''),
          (ustr ''Sheet1'', ustr ''B1'', []),
          (ustr ''Sheet1'', shape_label (ustr ''Box''), ustr ''note''),
          (ustr ''Sheet2'', ustr ''C2'', ustr ''a.c'')]"
proof -
  have f: "files (one_file_world demo_path mixed_book) demo_path = Some mixed_book"
    by (simp add: one_file_world_def)
  have c: "columns_in_range mixed_book"
    by (simp add: columns_in_range_def cols_ok_def book_defs)
  show ?thesis
    using f c search_empty_string_finds_all [OF f c, of re_fragment]
    by (simp add: expect_defs book_defs cell_text_def ustr_def py_str_nat_digit)
qed

subsection \<open>The label of a cell\<close>

text \<open>
  C6. The label of a cell in a record of the search or of the replacement is the
  character with the code 64 plus the column number, followed by the row number. For the
  columns 1 to 26 that character is the column's name, a single letter. For a column
  beyond 26 (and within the range of \<open>chr\<close>) it is still a single character, one
  beyond \<open>Z\<close>, while the column's name has at least two letters.
\<close>

theorem cell_label_single_character:
  "(1 \<le> cell_col c \<and> cell_col c \<le> 26 \<longrightarrow>
      append_cell_hit name c v results =
        Inr (results @ [(name, excel_col_name (cell_col c) @ py_str_nat (cell_row c), v)]) \<and>
      length (excel_col_name (cell_col c)) = 1) \<and>
   (26 < cell_col c \<and> cell_col c + 64 < 1114112 \<longrightarrow>
      append_cell_hit name c v results =
        Inr (results @ [(name, (cell_col c + 64) # py_str_nat (cell_row c), v)]) \<and>
      90 < cell_col c + 64 \<and>
      2 \<le> length (excel_col_name (cell_col c)) \<and>
      [cell_col c + 64] \<noteq> excel_col_name (cell_col c)) \<and>
   (replace_cell re pattern s r e x name c changes = Inr (c', changes') \<and> c' \<noteq> c \<longrightarrow>
      (\<exists>old new. changes' =
         changes @ [(name, (cell_col c + 64) # py_str_nat (cell_row c), old, new)]))"
proof (intro conjI impI)
  assume a: "1 \<le> cell_col c \<and> cell_col c \<le> 26"
  then have n: "excel_col_name (cell_col c) = [cell_col c + 64]"
    by (simp add: excel_col_name_single)
  show "append_cell_hit name c v results =
        Inr (results @ [(name, excel_col_name (cell_col c) @ py_str_nat (cell_row c), v)])"
    using a by (simp add: n append_cell_hit_def py_chr_def)
  show "length (excel_col_name (cell_col c)) = 1" by (simp add: n)
next
  assume a: "26 < cell_col c \<and> cell_col c + 64 < 1114112"
  then show "append_cell_hit name c v results =
        Inr (results @ [(name, (cell_col c + 64) # py_str_nat (cell_row c), v)])"
    by (simp add: append_cell_hit_def py_chr_def)
  show "90 < cell_col c + 64" using a by simp
  show l: "2 \<le> length (excel_col_name (cell_col c))"
    using a by (simp add: excel_col_name_long)
  show "[cell_col c + 64] \<noteq> excel_col_name (cell_col c)"
  proof
    assume "[cell_col c + 64] = excel_col_name (cell_col c)"
    then have "length (excel_col_name (cell_col c)) = 1" by (metis length_Cons list.size(3) One_nat_def)
    with l show False by simp
  qed
next
  assume a: "replace_cell re pattern s r e x name c changes = Inr (c', changes') \<and> c' \<noteq> c"
  then show "\<exists>old new. changes' =
         changes @ [(name, (cell_col c + 64) # py_str_nat (cell_row c), old, new)]"
    using replace_cell_Inr [of re pattern s r e x name c changes c' changes']
    by (auto simp: written_cell_def cell_change_def split: if_splits)
qed

theorem cell_label_single_character_witness:
  "1 \<le> cell_col (text_cell 3 26 (ustr ''foo'')) \<and>
   cell_col (text_cell 3 26 (ustr ''foo'')) \<le> 26 \<and>
   26 < cell_col (text_cell 3 27 (ustr ''foo'')) \<and>
   cell_col (text_cell 3 27 (ustr ''foo'')) + 64 < 1114112 \<and>
   excel_col_name 26 = ustr ''Z'' \<and>
   excel_col_name 27 = ustr ''AA'' \<and>
   fst (search_string_in_book re_fragment (one_file_world demo_path wide_book) demo_path
          (ustr ''foo'') False False) =
     Inr [(ustr ''Sheet1'', ustr ''Z3'', ustr ''foo''),
          (ustr ''Sheet1'', ustr ''[3'', ustr ''foo'')] \<and>
   replace_cell re_fragment None (ustr ''foo'') (ustr ''bar'') False False (ustr ''Sheet1'')
       (text_cell 3 27 (ustr ''foo'')) [] =
     Inr (text_cell 3 27 (ustr ''bar''),
          [(ustr ''Sheet1'', ustr ''[3'', ustr ''foo'', ustr ''bar'')]) \<and>
   text_cell 3 27 (ustr ''bar'') \<noteq> text_cell 3 27 (ustr ''foo'')"
proof -
  have r: "replace_cell re_fragment None (ustr ''foo'') (ustr ''bar'') False False (ustr ''Sheet1'')
       (text_cell 3 27 (ustr ''foo'')) [] =
     Inr (text_cell 3 27 (ustr ''bar''),
          [(ustr ''Sheet1'', ustr ''[3'', ustr ''foo'', ustr ''bar'')])"
    by (simp add: run_defs book_defs ustr_def py_str_nat_digit)
  have n: "text_cell 3 27 (ustr ''bar'') \<noteq> text_cell 3 27 (ustr ''foo'')"
    by (simp add: text_cell_def ustr_def)
  have z: "excel_col_name 26 = ustr ''Z''"
    by (simp add: excel_col_name.simps [of 26] excel_col_name.simps [of 0] ustr_def)
  have aa: "excel_col_name 27 = ustr ''AA''"
    by (simp add: excel_col_name.simps [of 27] excel_col_name.simps [of "Suc 0"]
        excel_col_name.simps [of 0] ustr_def)
  show ?thesis
    using r n z aa
      cell_label_single_character [of "text_cell 3 26 (ustr ''foo'')" "ustr ''Sheet1''"
        "ustr ''foo''" "[]"]
      cell_label_single_character [of "text_cell 3 27 (ustr ''foo'')" "ustr ''Sheet1''"
        "ustr ''foo''" "[]" re_fragment None "ustr ''foo''" "ustr ''bar''" False False
        "[]" "text_cell 3 27 (ustr ''bar'')"
        "[(ustr ''Sheet1'', ustr ''[3'', ustr ''foo'', ustr ''bar'')]"]
    by (simp add: run_defs book_defs ustr_def py_str_nat_digit)
qed

subsection \<open>The sizes of the grid\<close>




subsection \<open>Regular expressions with exact match\<close>

text \<open>
  C1. With regular expressions and exact match both on, the search string is escaped
  before it is compiled: the pattern is the start of the text, the characters of the
  search string taken literally, and the end of the text. A text matches exactly when
  it is the search string, or the search string followed by one newline. So the search
  string \<open>a.c\<close> does not find the text \<open>abc\<close>, which the regular expression \<open>^a.c$\<close>
  matches and which the search with exact match off finds.
\<close>

theorem exact_regex_is_literal:
  "make_pattern re_fragment s True True = Inr (Some (Bol # map (\<lambda>c. One (Lit c)) s @ [Eol])) \<and>
   search_cell re_fragment (Some (Bol # map (\<lambda>c. One (Lit c)) s @ [Eol])) s True True name c
       results =
     (if cell_text c = s \<or> cell_text c = s @ [10]
      then append_cell_hit name c (cell_text c) results else Inr results) \<and>
   search_shape re_fragment (Some (Bol # map (\<lambda>c. One (Lit c)) s @ [Eol])) s True True name sh
       results =
     (if shape_text sh = s \<or> shape_text sh = s @ [10]
      then Inr (results @ [(name, shape_label (shape_name sh), shape_text sh)])
      else Inr results) \<and>
   re_compile re_fragment (ustr ''^a.c$'') =
     Inr [Bol, One (Lit 97), One AnyChar, One (Lit 99), Eol] \<and>
   re_search re_fragment [Bol, One (Lit 97), One AnyChar, One (Lit 99), Eol] (ustr ''abc'') \<and>
   fst (search_string_in_book re_fragment (one_file_world demo_path dot_book) demo_path
          (ustr ''a.c'') True True) =
     Inr [(ustr ''Sheet1'', ustr ''B1'', ustr ''a.c'')] \<and>
   fst (search_string_in_book re_fragment (one_file_world demo_path dot_book) demo_path
          (ustr ''a.c'') False True) =
     Inr [(ustr ''Sheet1'', ustr ''A1'', ustr ''abc''),
          (ustr ''Sheet1'', ustr ''B1'', ustr ''a.c''),
          (ustr ''Sheet1'', shape_label (ustr ''Box''), ustr ''abc'')] \<and>
   fst (replace_string_in_book re_fragment (one_file_world demo_path dot_book) demo_path
          (ustr ''a.c'') (ustr ''Z'') True True) =
     Inr [(ustr ''Sheet1'', ustr ''B1'', ustr ''a.c'', ustr ''Z'')]"
proof -
  have m: "\<And>t. re_search re_fragment (Bol # map (\<lambda>c. One (Lit c)) s @ [Eol]) t =
             (t = s \<or> t = s @ [10])"
    using search_anchored [of s] by (simp add: re_fragment_def)
  have a: "search_cell re_fragment (Some (Bol # map (\<lambda>c. One (Lit c)) s @ [Eol])) s True True
       name c results =
     (if cell_text c = s \<or> cell_text c = s @ [10]
      then append_cell_hit name c (cell_text c) results else Inr results)"
    by (simp add: search_cell_def Let_def m)
  have a': "search_shape re_fragment (Some (Bol # map (\<lambda>c. One (Lit c)) s @ [Eol])) s True True
       name sh results =
     (if shape_text sh = s \<or> shape_text sh = s @ [10]
      then Inr (results @ [(name, shape_label (shape_name sh), shape_text sh)])
      else Inr results)"
    by (simp add: search_shape_def Let_def m)
  have b: "re_compile re_fragment (ustr ''^a.c$'') =
     Inr [Bol, One (Lit 97), One AnyChar, One (Lit 99), Eol]"
    by (simp add: re_fragment_def ustr_def re_plain_def re_cons_def)
  have c: "re_search re_fragment [Bol, One (Lit 97), One AnyChar, One (Lit 99), Eol] (ustr ''abc'')"
    by (simp add: re_fragment_def ustr_def)
  have d: "fst (search_string_in_book re_fragment (one_file_world demo_path dot_book) demo_path
          (ustr ''a.c'') True True) =
     Inr [(ustr ''Sheet1'', ustr ''B1'', ustr ''a.c'')]"
    by (simp add: run_defs book_defs re_defs ustr_def py_str_nat_digit)
  have e: "fst (search_string_in_book re_fragment (one_file_world demo_path dot_book) demo_path
          (ustr ''a.c'') False True) =
     Inr [(ustr ''Sheet1'', ustr ''A1'', ustr ''abc''),
          (ustr ''Sheet1'', ustr ''B1'', ustr ''a.c''),
          (ustr ''Sheet1'', shape_label (ustr ''Box''), ustr ''abc'')]"
    by (simp add: run_defs book_defs re_defs ustr_def py_str_nat_digit)
  have f: "fst (replace_string_in_book re_fragment (one_file_world demo_path dot_book) demo_path
          (ustr ''a.c'') (ustr ''Z'') True True) =
     Inr [(ustr ''Sheet1'', ustr ''B1'', ustr ''a.c'', ustr ''Z'')]"
    by (simp add: run_defs book_defs re_defs ustr_def py_str_nat_digit)
  show ?thesis using make_pattern_exact_regex a a' b c d e f by blast
qed

end
